theory Spec2Isabelle
  imports Main "HOL-Library.AList"
begin

section \<open>Go values the client works with\<close>

text \<open>
  A Go \<^verbatim>\<open>map[string]T\<close> is either nil or a table of entries with pairwise different
  keys. It is represented by \<open>None\<close> (nil) or by \<open>Some xs\<close>, where \<open>xs\<close> lists
  the entries in the order in which a \<^verbatim>\<open>for ... range\<close> loop visits them. Go leaves that
  order unspecified, so every statement below is made for an arbitrary list.
\<close>

type_synonym 'v gomap = "(string \<times> 'v) list option"

text \<open>The entries a \<^verbatim>\<open>range\<close> loop visits; ranging over a nil map visits nothing.\<close>

definition entries :: "'v gomap \<Rightarrow> (string \<times> 'v) list" where
  "entries m = (case m of None \<Rightarrow> [] | Some xs \<Rightarrow> xs)"

text \<open>A function either returns or panics.\<close>

datatype panic = NilMapAssignment | NilPointerDereference

datatype 'a outcome = Returns 'a | Panics panic

text \<open>
  \<^verbatim>\<open>m[key] = value\<close>: the run-time panics with "assignment to entry in nil map" when
  \<^verbatim>\<open>m\<close> is nil, and otherwise replaces or adds the entry.
\<close>

definition map_assign :: "'v gomap \<Rightarrow> string \<Rightarrow> 'v \<Rightarrow> 'v gomap outcome" where
  "map_assign m key val =
     (case m of
        None \<Rightarrow> Panics NilMapAssignment
      | Some xs \<Rightarrow> Returns (Some (AList.update key val xs)))"

text \<open>
  \<^verbatim>\<open>strings.ToUpper\<close>, on bytes: the letters a to z are mapped to A to Z and every other
  byte is kept. Go also maps letters outside ASCII, but none of them to G, E or T, so
  the comparison of the result with \<^verbatim>\<open>"GET"\<close> in \<^verbatim>\<open>Call\<close> has the same outcome.
\<close>

definition toUpperByte :: "char \<Rightarrow> char" where
  "toUpperByte c =
     (case map_of (zip ''abcdefghijklmnopqrstuvwxyz'' ''ABCDEFGHIJKLMNOPQRSTUVWXYZ'') c of
        Some u \<Rightarrow> u
      | None \<Rightarrow> c)"

definition ToUpper :: "string \<Rightarrow> string" where
  "ToUpper s = map toUpperByte s"

section \<open>The data model\<close>

text \<open>
  \<^verbatim>\<open>type Client struct { client *http.Client; endpoint string;
  headers map[string]string; selfSigned bool }\<close>. The pointer \<open>client\<close> is \<open>None\<close>
  when nil and \<open>Some a\<close> when it points to the \<^verbatim>\<open>http.Client\<close> allocated as number \<open>a\<close>.
\<close>

record Client =
  client :: "nat option"
  endpoint :: string
  headers :: "string gomap"
  selfSigned :: bool

text \<open>The zero value of the struct, which is what \<^verbatim>\<open>Client{}\<close> and \<^verbatim>\<open>new(Client)\<close> give.\<close>

definition zeroClient :: Client where
  "zeroClient = \<lparr>client = None, endpoint = [], headers = None, selfSigned = False\<rparr>"

text \<open>
  Of a parsed \<^verbatim>\<open>url.URL\<close> the client only touches \<^verbatim>\<open>RawQuery\<close>; scheme, authority
  and path are kept together in \<open>Base\<close>.
\<close>

record url =
  Base :: string
  RawQuery :: string
  Fragment :: string

text \<open>
  \<^verbatim>\<open>http.Header\<close> is a map from canonical keys to value lists; \<^verbatim>\<open>url.Values\<close> is
  a map from keys to value lists as well, kept as a list since it is encoded later. A nil
  \<^verbatim>\<open>io.Reader\<close> body is \<open>None\<close>.
\<close>

type_synonym header = "string \<rightharpoonup> string list"

type_synonym Values = "(string \<times> string list) list"

record request =
  Method :: string
  URL :: url
  Header :: header
  Body :: "string option"

record response =
  StatusCode :: nat
  RespBody :: string

text \<open>
  The errors of \<^verbatim>\<open>Decode\<close>, by kind: \<^verbatim>\<open>io.EOF\<close>, \<^verbatim>\<open>io.ErrUnexpectedEOF\<close>,
  \<^verbatim>\<open>*json.SyntaxError\<close> and \<^verbatim>\<open>*json.UnmarshalTypeError\<close>; their messages and
  offsets are left out.
\<close>

datatype decode_failure = EOF | UnexpectedEOF | SyntaxError | UnmarshalTypeError

datatype error =
    InvalidMethod string
  | URLError string
  | MarshalError string
  | TransportError string
  | DecodeError decode_failure

text \<open>
  What the program does to its surroundings: how many \<^verbatim>\<open>http.Client\<close> values it has
  allocated, the lines it has written with \<^verbatim>\<open>log.Println\<close>, and the requests it has
  handed to \<^verbatim>\<open>http.Client.Do\<close>.
\<close>

record world =
  allocated :: nat
  logged :: "string list"
  sent :: "request list"

text \<open>
  The collaborators of the client that are not part of its source: the standard library
  (\<^verbatim>\<open>encoding/json\<close>, \<^verbatim>\<open>net/http\<close>, \<^verbatim>\<open>net/url\<close>, \<^verbatim>\<open>net/textproto\<close>), the network behind
  \<^verbatim>\<open>http.Client.Do\<close>, and the helper \<^verbatim>\<open>ToString\<close> of the package, whose file is not
  among the sources. They are parameters of the model. \<open>'v\<close> is the type of the values
  held in an \<^verbatim>\<open>interface{}\<close> argument and \<open>'r\<close> the type of a decoded
  \<^verbatim>\<open>map[string]interface{}\<close>.

  \<^item> \<open>marshal\<close>: \<^verbatim>\<open>json.Marshal\<close> on a parameter map;
  \<^item> \<open>toString\<close>: \<^verbatim>\<open>ToString\<close>;
  \<^item> \<open>validMethod\<close>, \<open>parseURL\<close>: the two checks of \<^verbatim>\<open>http.NewRequest\<close>;
  \<^item> \<open>canonicalMIMEHeaderKey\<close>: the key under which \<^verbatim>\<open>Header.Set\<close> stores;
  \<^item> \<open>parseQuery\<close>: \<^verbatim>\<open>URL.Query\<close>, which drops what it cannot parse;
  \<^item> \<open>encodeQuery\<close>: \<^verbatim>\<open>Values.Encode\<close>;
  \<^item> \<open>roundTrip\<close>: what \<^verbatim>\<open>Do\<close> answers, given the requests made before, the
    \<^verbatim>\<open>http.Client\<close> used and the request;
  \<^item> \<open>decode\<close>: \<^verbatim>\<open>json.NewDecoder(body).Decode(&m)\<close> for \<^verbatim>\<open>m\<close> a nil map: the
    content of \<^verbatim>\<open>m\<close> afterwards and the error.
\<close>

record ('v, 'r) env =
  marshal :: "'v gomap \<Rightarrow> error + string"
  toString :: "'v \<Rightarrow> string"
  validMethod :: "string \<Rightarrow> bool"
  parseURL :: "string \<Rightarrow> error + url"
  canonicalMIMEHeaderKey :: "string \<Rightarrow> string"
  parseQuery :: "string \<Rightarrow> Values"
  encodeQuery :: "Values \<Rightarrow> string"
  roundTrip :: "request list \<Rightarrow> nat \<Rightarrow> request \<Rightarrow> error + response"
  decode :: "string \<Rightarrow> 'r option \<times> error option"

section \<open>Configuration methods\<close>

definition SetEndpoint :: "Client \<Rightarrow> string \<Rightarrow> Client" where
  "SetEndpoint clt e = clt\<lparr>endpoint := e\<rparr>"

definition SetSelfSigned :: "Client \<Rightarrow> bool \<Rightarrow> Client" where
  "SetSelfSigned clt status = clt\<lparr>selfSigned := status\<rparr>"

definition AddHeader :: "Client \<Rightarrow> string \<Rightarrow> string \<Rightarrow> Client outcome" where
  "AddHeader clt key val =
     (case map_assign (headers clt) key val of
        Panics p \<Rightarrow> Panics p
      | Returns m \<Rightarrow> Returns (clt\<lparr>headers := m\<rparr>))"

definition SetProject :: "Client \<Rightarrow> string \<Rightarrow> Client outcome" where
  "SetProject clt val =
     (case map_assign (headers clt) ''X-Appwrite-Project'' val of
        Panics p \<Rightarrow> Panics p
      | Returns m \<Rightarrow> Returns (clt\<lparr>headers := m\<rparr>))"

definition SetKey :: "Client \<Rightarrow> string \<Rightarrow> Client outcome" where
  "SetKey clt val =
     (case map_assign (headers clt) ''X-Appwrite-Key'' val of
        Panics p \<Rightarrow> Panics p
      | Returns m \<Rightarrow> Returns (clt\<lparr>headers := m\<rparr>))"

definition SetLocale :: "Client \<Rightarrow> string \<Rightarrow> Client outcome" where
  "SetLocale clt val =
     (case map_assign (headers clt) ''X-Appwrite-Locale'' val of
        Panics p \<Rightarrow> Panics p
      | Returns m \<Rightarrow> Returns (clt\<lparr>headers := m\<rparr>))"

definition SetMode :: "Client \<Rightarrow> string \<Rightarrow> Client outcome" where
  "SetMode clt val =
     (case map_assign (headers clt) ''X-Appwrite-Mode'' val of
        Panics p \<Rightarrow> Panics p
      | Returns m \<Rightarrow> Returns (clt\<lparr>headers := m\<rparr>))"

section \<open>Call and its helpers\<close>

text \<open>\<^verbatim>\<open>&http.Client{}\<close> allocates; the new value gets the next free number.\<close>

definition ensureClientInitialized :: "world \<Rightarrow> Client \<Rightarrow> world \<times> Client" where
  "ensureClientInitialized w clt =
     (if client clt = None
      then (w\<lparr>allocated := Suc (allocated w)\<rparr>, clt\<lparr>client := Some (allocated w)\<rparr>)
      else (w, clt))"

text \<open>
  \<^verbatim>\<open>prepareRequestBody\<close> of \<^verbatim>\<open>client.go\<close>: when \<^verbatim>\<open>json.Marshal\<close> fails, the nil
  reader is returned and nothing is logged.
\<close>

definition prepareRequestBody ::
  "('v, 'r) env \<Rightarrow> world \<Rightarrow> 'v gomap \<Rightarrow> world \<times> string option" where
  "prepareRequestBody env w params =
     (case marshal env params of
        Inl err \<Rightarrow> (w, None)
      | Inr jsonData \<Rightarrow> (w\<lparr>logged := logged w @ [jsonData]\<rparr>, Some jsonData))"

text \<open>\<^verbatim>\<open>prepareRequestBody\<close> of the second file, which differs in the logged text.\<close>

definition prepareRequestBody_p0 ::
  "('v, 'r) env \<Rightarrow> world \<Rightarrow> 'v gomap \<Rightarrow> world \<times> string option" where
  "prepareRequestBody_p0 env w params =
     (case marshal env params of
        Inl err \<Rightarrow> (w, None)
      | Inr jsonData \<Rightarrow> (w\<lparr>logged := logged w @ [''JSON Data: '' @ jsonData]\<rparr>, Some jsonData))"

text \<open>
  \<^verbatim>\<open>http.NewRequest(method, url, body)\<close>: an empty method means GET, the method has
  to be a valid token and the URL has to parse; the request starts with an empty header.
\<close>

definition NewRequest ::
  "('v, 'r) env \<Rightarrow> string \<Rightarrow> string \<Rightarrow> string option \<Rightarrow> error + request" where
  "NewRequest env method urlStr body =
     (let m = (if method = [] then ''GET'' else method)
      in if \<not> validMethod env m then Inl (InvalidMethod m)
         else (case parseURL env urlStr of
                 Inl err \<Rightarrow> Inl err
               | Inr u \<Rightarrow> Inr \<lparr>Method = m, URL = u, Header = Map.empty, Body = body\<rparr>))"

text \<open>\<^verbatim>\<open>req.Header.Set(key, value)\<close>.\<close>

definition Header_Set :: "('v, 'r) env \<Rightarrow> request \<Rightarrow> string \<Rightarrow> string \<Rightarrow> request" where
  "Header_Set env req key val =
     req\<lparr>Header := (Header req)(canonicalMIMEHeaderKey env key \<mapsto> [val])\<rparr>"

definition setHeaders ::
  "('v, 'r) env \<Rightarrow> request \<Rightarrow> string gomap \<Rightarrow> 'v gomap \<Rightarrow> request" where
  "setHeaders env req clientHeaders customHeaders =
     (let req1 = fold (\<lambda>(key, val) r. Header_Set env r key val) (entries clientHeaders) req
      in fold (\<lambda>(key, val) r. Header_Set env r key (toString env val))
           (entries customHeaders) req1)"

text \<open>\<^verbatim>\<open>q.Add(key, value)\<close> is \<^verbatim>\<open>q[key] = append(q[key], value)\<close>.\<close>

definition Values_Get :: "Values \<Rightarrow> string \<Rightarrow> string list" where
  "Values_Get q key = (case map_of q key of None \<Rightarrow> [] | Some vs \<Rightarrow> vs)"

definition Values_Add :: "Values \<Rightarrow> string \<Rightarrow> string \<Rightarrow> Values" where
  "Values_Add q key val = AList.update key (Values_Get q key @ [val]) q"

text \<open>
  The values \<^verbatim>\<open>q\<close> holds when the loop of \<^verbatim>\<open>updateQueryParameters\<close> ends, for
  a request whose URL has the given raw query.
\<close>

definition queryValues :: "('v, 'r) env \<Rightarrow> string \<Rightarrow> 'v gomap \<Rightarrow> Values" where
  "queryValues env rawQuery params =
     fold (\<lambda>(key, val) q. Values_Add q key (toString env val)) (entries params)
       (parseQuery env rawQuery)"

definition updateQueryParameters ::
  "('v, 'r) env \<Rightarrow> request \<Rightarrow> 'v gomap \<Rightarrow> request" where
  "updateQueryParameters env req params =
     req\<lparr>URL := (URL req)\<lparr>RawQuery :=
       encodeQuery env (queryValues env (RawQuery (URL req)) params)\<rparr>\<rparr>"

definition parseJSONResponse ::
  "('v, 'r) env \<Rightarrow> response \<Rightarrow> 'r option \<times> error option" where
  "parseJSONResponse env resp =
     (case decode env (RespBody resp) of
        (jsonResponse, Some err) \<Rightarrow> (None, Some err)
      | (jsonResponse, None) \<Rightarrow> (jsonResponse, None))"

text \<open>\<^verbatim>\<open>c.Do(req)\<close> on the \<^verbatim>\<open>http.Client\<close> number \<open>h\<close>.\<close>

definition Do ::
  "('v, 'r) env \<Rightarrow> world \<Rightarrow> nat \<Rightarrow> request \<Rightarrow> world \<times> (error + response)" where
  "Do env w h req = (w\<lparr>sent := sent w @ [req]\<rparr>, roundTrip env (sent w) h req)"

text \<open>
  \<^verbatim>\<open>Call\<close> of \<^verbatim>\<open>client.go\<close>. The result is the new state of the surroundings, the
  new state of the receiver and the pair the Go function returns.
\<close>

definition Call ::
  "('v, 'r) env \<Rightarrow> world \<Rightarrow> Client \<Rightarrow> string \<Rightarrow> string \<Rightarrow> 'v gomap \<Rightarrow> 'v gomap \<Rightarrow>
     world \<times> Client \<times> ('r option \<times> error option) outcome" where
  "Call env w clt method path hdrs params =
     (let (w1, clt1) = ensureClientInitialized w clt;
          urlPath = endpoint clt1 @ path;
          isGet = (ToUpper method = ''GET'');
          (w2, reqBody) = (if \<not> isGet then prepareRequestBody env w1 params else (w1, None))
      in case NewRequest env method urlPath reqBody of
           Inl err \<Rightarrow> (w2, clt1, Returns (None, Some err))
         | Inr req \<Rightarrow>
             (let req1 = setHeaders env req (headers clt1) hdrs;
                  req2 = (if isGet then updateQueryParameters env req1 params
                          else Header_Set env req1 ''Content-Type'' ''application/json'')
              in case client clt1 of
                   None \<Rightarrow> (w2, clt1, Panics NilPointerDereference)
                 | Some h \<Rightarrow>
                     (case Do env w2 h req2 of
                        (w3, Inl err) \<Rightarrow> (w3, clt1, Returns (None, Some err))
                      | (w3, Inr resp) \<Rightarrow>
                          (case parseJSONResponse env resp of
                             (jsonResponse, Some err) \<Rightarrow> (w3, clt1, Returns (None, Some err))
                           | (jsonResponse, None) \<Rightarrow> (w3, clt1, Returns (jsonResponse, None))))))"

text \<open>
  \<^verbatim>\<open>Call\<close> of the second file: the same steps, without the \<^verbatim>\<open>else\<close> branch that
  sets \<^verbatim>\<open>Content-Type\<close>.
\<close>

definition Call_p0 ::
  "('v, 'r) env \<Rightarrow> world \<Rightarrow> Client \<Rightarrow> string \<Rightarrow> string \<Rightarrow> 'v gomap \<Rightarrow> 'v gomap \<Rightarrow>
     world \<times> Client \<times> ('r option \<times> error option) outcome" where
  "Call_p0 env w clt method path hdrs params =
     (let (w1, clt1) = ensureClientInitialized w clt;
          urlPath = endpoint clt1 @ path;
          isGet = (ToUpper method = ''GET'');
          (w2, reqBody) = (if \<not> isGet then prepareRequestBody_p0 env w1 params else (w1, None))
      in case NewRequest env method urlPath reqBody of
           Inl err \<Rightarrow> (w2, clt1, Returns (None, Some err))
         | Inr req \<Rightarrow>
             (let req1 = setHeaders env req (headers clt1) hdrs;
                  req2 = (if isGet then updateQueryParameters env req1 params else req1)
              in case client clt1 of
                   None \<Rightarrow> (w2, clt1, Panics NilPointerDereference)
                 | Some h \<Rightarrow>
                     (case Do env w2 h req2 of
                        (w3, Inl err) \<Rightarrow> (w3, clt1, Returns (None, Some err))
                      | (w3, Inr resp) \<Rightarrow>
                          (case parseJSONResponse env resp of
                             (jsonResponse, Some err) \<Rightarrow> (w3, clt1, Returns (None, Some err))
                           | (jsonResponse, None) \<Rightarrow> (w3, clt1, Returns (jsonResponse, None))))))"

text \<open>
  The request that \<^verbatim>\<open>Call\<close> hands to \<^verbatim>\<open>Do\<close>, or the error of
  \<^verbatim>\<open>http.NewRequest\<close>, written as a function of the receiver and the arguments, for
  each of the two files. The lemmas \<open>Call_eq\<close> and \<open>Call_p0_eq\<close> below show that
  \<open>Call\<close> and \<open>Call_p0\<close> build exactly these.
\<close>

definition requestBody :: "('v, 'r) env \<Rightarrow> string \<Rightarrow> 'v gomap \<Rightarrow> string option" where
  "requestBody env method params =
     (if ToUpper method = ''GET'' then None
      else (case marshal env params of Inl err \<Rightarrow> None | Inr jsonData \<Rightarrow> Some jsonData))"

definition outboundRequest ::
  "('v, 'r) env \<Rightarrow> Client \<Rightarrow> string \<Rightarrow> string \<Rightarrow> 'v gomap \<Rightarrow> 'v gomap \<Rightarrow> error + request" where
  "outboundRequest env clt method path hdrs params =
     (case NewRequest env method (endpoint clt @ path) (requestBody env method params) of
        Inl err \<Rightarrow> Inl err
      | Inr req \<Rightarrow>
          Inr (if ToUpper method = ''GET''
               then updateQueryParameters env (setHeaders env req (headers clt) hdrs) params
               else Header_Set env (setHeaders env req (headers clt) hdrs)
                      ''Content-Type'' ''application/json''))"

definition outboundRequest_p0 ::
  "('v, 'r) env \<Rightarrow> Client \<Rightarrow> string \<Rightarrow> string \<Rightarrow> 'v gomap \<Rightarrow> 'v gomap \<Rightarrow> error + request" where
  "outboundRequest_p0 env clt method path hdrs params =
     (case NewRequest env method (endpoint clt @ path) (requestBody env method params) of
        Inl err \<Rightarrow> Inl err
      | Inr req \<Rightarrow>
          Inr (if ToUpper method = ''GET''
               then updateQueryParameters env (setHeaders env req (headers clt) hdrs) params
               else setHeaders env req (headers clt) hdrs))"

text \<open>The lines \<^verbatim>\<open>prepareRequestBody\<close> logs during a call, for each of the two files.\<close>

definition logLines :: "('v, 'r) env \<Rightarrow> string \<Rightarrow> 'v gomap \<Rightarrow> string list" where
  "logLines env method params =
     (if ToUpper method = ''GET'' then []
      else (case marshal env params of Inl err \<Rightarrow> [] | Inr jsonData \<Rightarrow> [jsonData]))"

definition logLines_p0 :: "('v, 'r) env \<Rightarrow> string \<Rightarrow> 'v gomap \<Rightarrow> string list" where
  "logLines_p0 env method params =
     (if ToUpper method = ''GET'' then []
      else (case marshal env params of
              Inl err \<Rightarrow> []
            | Inr jsonData \<Rightarrow> [''JSON Data: '' @ jsonData]))"

text \<open>The pair \<^verbatim>\<open>Call\<close> returns once the transport has answered.\<close>

definition answer ::
  "('v, 'r) env \<Rightarrow> error + response \<Rightarrow> ('r option \<times> error option) outcome" where
  "answer env r =
     (case r of
        Inl err \<Rightarrow> Returns (None, Some err)
      | Inr resp \<Rightarrow> Returns (parseJSONResponse env resp))"

text \<open>The \<^verbatim>\<open>http.Client\<close> a call uses: the one the receiver has, or a new one.\<close>

definition handleOf :: "world \<Rightarrow> Client \<Rightarrow> nat" where
  "handleOf w clt = (case client clt of None \<Rightarrow> allocated w | Some h \<Rightarrow> h)"

definition allocatedAfter :: "world \<Rightarrow> Client \<Rightarrow> nat" where
  "allocatedAfter w clt = (if client clt = None then Suc (allocated w) else allocated w)"

text \<open>
  The value of the entry that a \<^verbatim>\<open>range\<close> loop visits last among those whose key has
  the canonical form \<open>c\<close>.
\<close>

fun lastValue :: "(string \<Rightarrow> string) \<Rightarrow> string \<Rightarrow> (string \<times> 'a) list \<Rightarrow> 'a option" where
  "lastValue canon c [] = None"
| "lastValue canon c ((k, v) # xs) =
     (case lastValue canon c xs of
        Some v' \<Rightarrow> Some v'
      | None \<Rightarrow> if canon k = c then Some v else None)"

text \<open>
  Following the claim about the two layers: what a request carries under the key \<open>c\<close>
  when the custom headers lie over the default headers, and within a layer the header
  set last under a key counts.
\<close>

definition layeredValue ::
  "('v, 'r) env \<Rightarrow> string gomap \<Rightarrow> 'v gomap \<Rightarrow> string \<Rightarrow> string list option" where
  "layeredValue env defaults custom c =
     (case lastValue (canonicalMIMEHeaderKey env) c (entries custom) of
        Some v \<Rightarrow> Some [toString env v]
      | None \<Rightarrow>
          (case lastValue (canonicalMIMEHeaderKey env) c (entries defaults) of
             Some dv \<Rightarrow> Some [dv]
           | None \<Rightarrow> None))"

section \<open>Programs that use a client\<close>

text \<open>
  A program that holds one \<^verbatim>\<open>Client\<close> calls its exported methods one after the
  other. \<open>run\<close> executes such a sequence; it stops at the first panic. The argument
  \<open>call\<close> is \<^verbatim>\<open>Call\<close> of one of the two files.
\<close>

datatype 'v op =
    OpSetEndpoint string
  | OpSetSelfSigned bool
  | OpAddHeader string string
  | OpSetProject string
  | OpSetKey string
  | OpSetLocale string
  | OpSetMode string
  | OpCall string string "'v gomap" "'v gomap"

type_synonym ('v, 'r) callfn =
  "world \<Rightarrow> Client \<Rightarrow> string \<Rightarrow> string \<Rightarrow> 'v gomap \<Rightarrow> 'v gomap \<Rightarrow>
     world \<times> Client \<times> ('r option \<times> error option) outcome"

definition lift_setter :: "world \<Rightarrow> Client outcome \<Rightarrow> (world \<times> Client) outcome" where
  "lift_setter w r = (case r of Panics p \<Rightarrow> Panics p | Returns clt \<Rightarrow> Returns (w, clt))"

fun step :: "('v, 'r) callfn \<Rightarrow> world \<times> Client \<Rightarrow> 'v op \<Rightarrow> (world \<times> Client) outcome" where
  "step call (w, clt) (OpSetEndpoint e) = Returns (w, SetEndpoint clt e)"
| "step call (w, clt) (OpSetSelfSigned b) = Returns (w, SetSelfSigned clt b)"
| "step call (w, clt) (OpAddHeader k v) = lift_setter w (AddHeader clt k v)"
| "step call (w, clt) (OpSetProject v) = lift_setter w (SetProject clt v)"
| "step call (w, clt) (OpSetKey v) = lift_setter w (SetKey clt v)"
| "step call (w, clt) (OpSetLocale v) = lift_setter w (SetLocale clt v)"
| "step call (w, clt) (OpSetMode v) = lift_setter w (SetMode clt v)"
| "step call (w, clt) (OpCall method path hdrs params) =
     (case call w clt method path hdrs params of
        (w', clt', Panics p) \<Rightarrow> Panics p
      | (w', clt', Returns r) \<Rightarrow> Returns (w', clt'))"

fun run :: "('v, 'r) callfn \<Rightarrow> world \<times> Client \<Rightarrow> 'v op list \<Rightarrow> (world \<times> Client) outcome" where
  "run call s [] = Returns s"
| "run call s (x # xs) =
     (case step call s x of Panics p \<Rightarrow> Panics p | Returns s' \<Rightarrow> run call s' xs)"

text \<open>The operations that write to the header map of the receiver.\<close>

fun setsHeader :: "'v op \<Rightarrow> bool" where
  "setsHeader (OpAddHeader k v) = True"
| "setsHeader (OpSetProject v) = True"
| "setsHeader (OpSetKey v) = True"
| "setsHeader (OpSetLocale v) = True"
| "setsHeader (OpSetMode v) = True"
| "setsHeader (OpSetEndpoint e) = False"
| "setsHeader (OpSetSelfSigned b) = False"
| "setsHeader (OpCall method path hdrs params) = False"

section \<open>A stand-in for the collaborators\<close>

text \<open>
  To run the model on concrete calls, the parameters are instantiated with small
  functions that behave as the Go library does on the calls made below: header keys and
  methods made of token characters, URLs without escapes, parameter values that are
  strings, booleans or a channel (which \<^verbatim>\<open>json.Marshal\<close> refuses), and a server with
  six fixed answers. The decoder reads JSON as \<^verbatim>\<open>encoding/json\<close> does.
\<close>

datatype gval = GString string | GBool bool | GChan

text \<open>
  What \<^verbatim>\<open>encoding/json\<close> stores in an \<^verbatim>\<open>interface{}\<close>: nil, a bool, a number, a
  string, a slice or a map. A number is kept as it is written in the text.
\<close>

datatype json =
    JNull
  | JBool bool
  | JNumber string
  | JString string
  | JArray "json list"
  | JObject "(string \<times> json) list"

definition toLowerByte :: "char \<Rightarrow> char" where
  "toLowerByte c =
     (case map_of (zip ''ABCDEFGHIJKLMNOPQRSTUVWXYZ'' ''abcdefghijklmnopqrstuvwxyz'') c of
        Some l \<Rightarrow> l
      | None \<Rightarrow> c)"

definition isAlnum :: "char \<Rightarrow> bool" where
  "isAlnum c \<longleftrightarrow>
     c \<in> set ''abcdefghijklmnopqrstuvwxyzABCDEFGHIJKLMNOPQRSTUVWXYZ0123456789''"

definition isTokenByte :: "char \<Rightarrow> bool" where
  "isTokenByte c \<longleftrightarrow> isAlnum c \<or> c \<in> set ''!#$%&*+-.^_`|~'' \<or> c = CHR 0x27"

fun canonLoop :: "bool \<Rightarrow> string \<Rightarrow> string" where
  "canonLoop upper [] = []"
| "canonLoop upper (c # cs) =
     (if upper then toUpperByte c else toLowerByte c) # canonLoop (c = CHR ''-'') cs"

definition std_canonicalMIMEHeaderKey :: "string \<Rightarrow> string" where
  "std_canonicalMIMEHeaderKey s = (if list_all isTokenByte s then canonLoop True s else s)"

definition std_validMethod :: "string \<Rightarrow> bool" where
  "std_validMethod m \<longleftrightarrow> m \<noteq> [] \<and> list_all isTokenByte m"

text \<open>
  Modelled from the spec: \<^verbatim>\<open>ToString\<close>, the helper of the package whose source file
  is missing. The spec says that each value is converted to its string representation:
  a string is itself and a boolean is \<^verbatim>\<open>true\<close> or \<^verbatim>\<open>false\<close>. It says nothing about
  channels; the empty string stands in for them, and no call below converts one.
\<close>

fun std_toString :: "gval \<Rightarrow> string" where
  "std_toString (GString s) = s"
| "std_toString (GBool b) = (if b then ''true'' else ''false'')"
| "std_toString GChan = []"

text \<open>Byte-wise order on strings, and insertion sort of entries by key.\<close>

fun bytes_le :: "string \<Rightarrow> string \<Rightarrow> bool" where
  "bytes_le [] bs = True"
| "bytes_le (a # as) [] = False"
| "bytes_le (a # as) (b # bs) =
     (if a = b then bytes_le as bs else (of_char a :: nat) < of_char b)"

fun insertByKey :: "string \<times> 'a \<Rightarrow> (string \<times> 'a) list \<Rightarrow> (string \<times> 'a) list" where
  "insertByKey x [] = [x]"
| "insertByKey x (y # ys) =
     (if bytes_le (fst x) (fst y) then x # y # ys else y # insertByKey x ys)"

definition sortByKey :: "(string \<times> 'a) list \<Rightarrow> (string \<times> 'a) list" where
  "sortByKey xs = foldr insertByKey xs []"

fun joinWith :: "string \<Rightarrow> string list \<Rightarrow> string" where
  "joinWith sep [] = []"
| "joinWith sep [x] = x"
| "joinWith sep (x # y # ys) = x @ sep @ joinWith sep (y # ys)"

definition jsonQuote :: "string \<Rightarrow> string" where
  "jsonQuote s =
     [CHR 0x22] @
     concat (map (\<lambda>c. if c = CHR 0x22 \<or> c = CHR 0x5C then [CHR 0x5C, c] else [c]) s) @
     [CHR 0x22]"

fun jsonValue :: "gval \<Rightarrow> string" where
  "jsonValue (GString s) = jsonQuote s"
| "jsonValue (GBool b) = (if b then ''true'' else ''false'')"
| "jsonValue GChan = []"

definition std_marshal :: "gval gomap \<Rightarrow> error + string" where
  "std_marshal params =
     (case params of
        None \<Rightarrow> Inr ''null''
      | Some xs \<Rightarrow>
          if GChan \<in> snd ` set xs then Inl (MarshalError ''json: unsupported type: chan int'')
          else Inr (''{'' @
                    joinWith '','' (map (\<lambda>(k, v). jsonQuote k @ '':'' @ jsonValue v) (sortByKey xs)) @
                    ''}''))"

text \<open>Cut a string at the first occurrence of a byte.\<close>

definition cutAt :: "char \<Rightarrow> string \<Rightarrow> string \<times> string" where
  "cutAt c s = (takeWhile (\<lambda>x. x \<noteq> c) s, drop 1 (dropWhile (\<lambda>x. x \<noteq> c) s))"

definition isControlByte :: "char \<Rightarrow> bool" where
  "isControlByte c \<longleftrightarrow> (of_char c :: nat) < 0x20 \<or> (of_char c :: nat) = 0x7F"

definition std_parseURL :: "string \<Rightarrow> error + url" where
  "std_parseURL s =
     (if list_ex isControlByte s then Inl (URLError ''net/url: invalid control character in URL'')
      else (let (rest, frag) = cutAt (CHR ''#'') s;
                (base, query) = cutAt (CHR ''?'') rest
            in Inr \<lparr>Base = base, RawQuery = query, Fragment = frag\<rparr>))"

fun splitOn :: "char \<Rightarrow> string \<Rightarrow> string list" where
  "splitOn c [] = [[]]"
| "splitOn c (x # xs) =
     (case splitOn c xs of
        [] \<Rightarrow> [[x]]
      | p # ps \<Rightarrow> if x = c then [] # p # ps else (x # p) # ps)"

definition Values_Add_pair :: "Values \<Rightarrow> string \<Rightarrow> Values" where
  "Values_Add_pair q kv = (case cutAt (CHR ''='') kv of (k, v) \<Rightarrow> Values_Add q k v)"

definition std_parseQuery :: "string \<Rightarrow> Values" where
  "std_parseQuery s = fold (\<lambda>kv q. if kv = [] then q else Values_Add_pair q kv) (splitOn (CHR ''&'') s) []"

definition hexDigit :: "nat \<Rightarrow> char" where
  "hexDigit n = ''0123456789ABCDEF'' ! n"

definition queryEscapeByte :: "char \<Rightarrow> string" where
  "queryEscapeByte c =
     (if isAlnum c \<or> c \<in> set ''-_.~'' then [c]
      else if c = CHR '' '' then ''+''
      else [CHR ''%'', hexDigit (of_char c div 16), hexDigit (of_char c mod 16)])"

definition QueryEscape :: "string \<Rightarrow> string" where
  "QueryEscape s = concat (map queryEscapeByte s)"

definition std_encodeQuery :: "Values \<Rightarrow> string" where
  "std_encodeQuery q =
     joinWith ''&''
       (concat (map (\<lambda>(k, vs). map (\<lambda>v. QueryEscape k @ ''='' @ QueryEscape v) vs) (sortByKey q)))"

text \<open>
  The server: one host that cannot be reached, one path that answers 404 with a JSON
  document, one that answers 502 with an HTML page, one that answers with an HTML tag
  after a JSON document, one that answers \<^verbatim>\<open>null\<close>, and 200 with a JSON document for
  everything else.
\<close>

definition std_roundTrip :: "request list \<Rightarrow> nat \<Rightarrow> request \<Rightarrow> error + response" where
  \<open>std_roundTrip history h req =
     (if Base (URL req) = ''https://unreachable.test/v1/health''
        then Inl (TransportError ''dial tcp: lookup unreachable.test: no such host'')
      else if Base (URL req) = ''https://example.test/v1/missing''
        then Inr \<lparr>StatusCode = 404, RespBody = ''{"message":"not found"}''\<rparr>
      else if Base (URL req) = ''https://example.test/v1/broken''
        then Inr \<lparr>StatusCode = 502, RespBody = ''<html>Bad Gateway</html>''\<rparr>
      else if Base (URL req) = ''https://example.test/v1/trailing''
        then Inr \<lparr>StatusCode = 200, RespBody = ''{"ok":true}<html>''\<rparr>
      else if Base (URL req) = ''https://example.test/v1/null''
        then Inr \<lparr>StatusCode = 200, RespBody = ''null''\<rparr>
      else Inr \<lparr>StatusCode = 200, RespBody = ''{"ok":true}''\<rparr>)\<close>

text \<open>
  \<^verbatim>\<open>json.NewDecoder(body).Decode(&m)\<close> reads the first JSON value of the body and
  stores it. The stand-in does the same on the text of the body: a reader for each kind
  of value, which gives the value and the text left over, or the kind of failure: the text
  ends inside the value (\<open>UnexpectedEOF\<close>) or a byte cannot continue it
  (\<open>SyntaxError\<close>).
\<close>

datatype 'a parsed = Parsed 'a string | Failed decode_failure

definition isSpace :: "char \<Rightarrow> bool" where
  "isSpace c \<longleftrightarrow> c = CHR '' '' \<or> c = CHR 0x09 \<or> c = CHR 0x0A \<or> c = CHR 0x0D"

definition skipSpace :: "string \<Rightarrow> string" where
  "skipSpace s = dropWhile isSpace s"

definition isDigit :: "char \<Rightarrow> bool" where
  "isDigit c \<longleftrightarrow> c \<in> set ''0123456789''"

definition hexValue :: "char \<Rightarrow> nat option" where
  "hexValue c =
     map_of (zip ''0123456789abcdefABCDEF''
                 [0, 1, 2, 3, 4, 5, 6, 7, 8, 9, 10, 11, 12, 13, 14, 15, 10, 11, 12, 13, 14, 15]) c"

fun expectWord :: "string \<Rightarrow> 'a \<Rightarrow> string \<Rightarrow> 'a parsed" where
  "expectWord [] v s = Parsed v s"
| "expectWord (w # ws) v [] = Failed UnexpectedEOF"
| "expectWord (w # ws) v (c # cs) = (if c = w then expectWord ws v cs else Failed SyntaxError)"

text \<open>Four hexadecimal digits, as after \<^verbatim>\<open>\u\<close>.\<close>

definition readHex4 :: "string \<Rightarrow> nat parsed" where
  "readHex4 s =
     (let ds = take 4 s
      in if \<not> list_all (\<lambda>c. hexValue c \<noteq> None) ds then Failed SyntaxError
         else if length ds < 4 then Failed UnexpectedEOF
         else Parsed (foldl (\<lambda>n c. 16 * n + the (hexValue c)) 0 ds) (drop 4 s))"

text \<open>\<^verbatim>\<open>utf8.EncodeRune\<close>.\<close>

definition utf8Encode :: "nat \<Rightarrow> string" where
  "utf8Encode cp =
     (if cp < 0x80 then [char_of cp]
      else if cp < 0x800 then [char_of (0xC0 + cp div 0x40), char_of (0x80 + cp mod 0x40)]
      else if cp < 0x10000 then
        [char_of (0xE0 + cp div 0x1000), char_of (0x80 + cp div 0x40 mod 0x40),
         char_of (0x80 + cp mod 0x40)]
      else
        [char_of (0xF0 + cp div 0x40000), char_of (0x80 + cp div 0x1000 mod 0x40),
         char_of (0x80 + cp div 0x40 mod 0x40), char_of (0x80 + cp mod 0x40)])"

definition simpleEscape :: "char \<Rightarrow> char option" where
  "simpleEscape e =
     map_of [(CHR 0x22, CHR 0x22), (CHR 0x5C, CHR 0x5C), (CHR ''/'', CHR ''/''),
             (CHR ''b'', CHR 0x08), (CHR ''f'', CHR 0x0C), (CHR ''n'', CHR 0x0A),
             (CHR ''r'', CHR 0x0D), (CHR ''t'', CHR 0x09)] e"

text \<open>
  The second half of a surrogate pair, when the text goes on with one: Go joins the two
  halves, and puts U+FFFD for a half that stands alone.
\<close>

definition lowSurrogate :: "string \<Rightarrow> nat option" where
  "lowSurrogate s =
     (case s of
        b # u # hs \<Rightarrow>
          if b = CHR 0x5C \<and> u = CHR ''u'' then
            (case readHex4 hs of
               Parsed lo r \<Rightarrow> if 0xDC00 \<le> lo \<and> lo < 0xE000 then Some lo else None
             | Failed e \<Rightarrow> None)
          else None
      | _ \<Rightarrow> None)"

text \<open>
  The length of the UTF-8 sequence a text starts with, 0 when it starts with none: Go
  copies a valid sequence and puts U+FFFD for any other byte outside ASCII.
\<close>

definition inRange :: "nat \<Rightarrow> nat \<Rightarrow> char \<Rightarrow> bool" where
  "inRange lo hi c \<longleftrightarrow> lo \<le> of_char c \<and> (of_char c :: nat) \<le> hi"

definition runeLength :: "string \<Rightarrow> nat" where
  "runeLength s =
     (case s of
        [] \<Rightarrow> 0
      | a # r \<Rightarrow>
          if inRange 0xC2 0xDF a then
            (case r of b # _ \<Rightarrow> if inRange 0x80 0xBF b then 2 else 0 | _ \<Rightarrow> 0)
          else if inRange 0xE0 0xEF a then
            (case r of
               b # c # _ \<Rightarrow>
                 if inRange (if a = CHR 0xE0 then 0xA0 else 0x80)
                            (if a = CHR 0xED then 0x9F else 0xBF) b \<and> inRange 0x80 0xBF c
                 then 3 else 0
             | _ \<Rightarrow> 0)
          else if inRange 0xF0 0xF4 a then
            (case r of
               b # c # d # _ \<Rightarrow>
                 if inRange (if a = CHR 0xF0 then 0x90 else 0x80)
                            (if a = CHR 0xF4 then 0x8F else 0xBF) b \<and>
                    inRange 0x80 0xBF c \<and> inRange 0x80 0xBF d
                 then 4 else 0
             | _ \<Rightarrow> 0)
          else 0)"

text \<open>
  One step inside a string literal: the closing quote, or some bytes of the string and the
  text left over, or a failure. Control bytes and unknown escapes are syntax errors.
\<close>

datatype string_step = Closed string | Emit string string | Broken decode_failure

definition stringStep :: "string \<Rightarrow> string_step" where
  "stringStep s =
     (case s of
        [] \<Rightarrow> Broken UnexpectedEOF
      | c # cs \<Rightarrow>
          if c = CHR 0x22 then Closed cs
          else if c = CHR 0x5C then
            (case cs of
               [] \<Rightarrow> Broken UnexpectedEOF
             | e # es \<Rightarrow>
                 if e = CHR ''u'' then
                   (case readHex4 es of
                      Failed f \<Rightarrow> Broken f
                    | Parsed cp r \<Rightarrow>
                        if 0xD800 \<le> cp \<and> cp < 0xDC00 \<and> lowSurrogate r \<noteq> None then
                          Emit (utf8Encode (0x10000 + (cp - 0xD800) * 0x400 +
                                            (the (lowSurrogate r) - 0xDC00))) (drop 6 r)
                        else Emit (utf8Encode (if 0xD800 \<le> cp \<and> cp < 0xE000 then 0xFFFD else cp)) r)
                 else
                   (case simpleEscape e of
                      None \<Rightarrow> Broken SyntaxError
                    | Some b \<Rightarrow> Emit [b] es))
          else if (of_char c :: nat) < 0x20 then Broken SyntaxError
          else if (of_char c :: nat) < 0x80 then Emit [c] cs
          else if runeLength s = 0 then Emit (utf8Encode 0xFFFD) cs
          else Emit (take (runeLength s) s) (drop (runeLength s) s))"

function parseString :: "string \<Rightarrow> string parsed" where
  "parseString s =
     (case stringStep s of
        Broken f \<Rightarrow> Failed f
      | Closed r \<Rightarrow> Parsed [] r
      | Emit bs r \<Rightarrow>
          (case parseString r of
             Failed f \<Rightarrow> Failed f
           | Parsed str r' \<Rightarrow> Parsed (bs @ str) r'))"
  by pat_completeness auto
termination
  by (relation "measure length")
     (auto simp: stringStep_def readHex4_def Let_def
       split: list.splits if_splits parsed.splits option.splits)

declare parseString.simps [simp del]

text \<open>
  A number: an optional minus, the integer part without leading zeros, an optional
  fraction and an optional exponent. The result is the text of the number.
\<close>

definition parseDigits :: "string \<Rightarrow> string parsed" where
  "parseDigits s =
     (case s of
        [] \<Rightarrow> Failed UnexpectedEOF
      | c # cs \<Rightarrow>
          if isDigit c then Parsed (takeWhile isDigit s) (dropWhile isDigit s)
          else Failed SyntaxError)"

definition parseInt :: "string \<Rightarrow> string parsed" where
  "parseInt s =
     (case s of
        [] \<Rightarrow> Failed UnexpectedEOF
      | c # cs \<Rightarrow> if c = CHR ''0'' then Parsed ''0'' cs else parseDigits s)"

definition parseFraction :: "string \<Rightarrow> string parsed" where
  "parseFraction s =
     (case s of
        [] \<Rightarrow> Parsed [] s
      | c # cs \<Rightarrow>
          if c = CHR ''.'' then
            (case parseDigits cs of Failed f \<Rightarrow> Failed f | Parsed ds r \<Rightarrow> Parsed (c # ds) r)
          else Parsed [] s)"

definition parseExponent :: "string \<Rightarrow> string parsed" where
  "parseExponent s =
     (case s of
        [] \<Rightarrow> Parsed [] s
      | c # cs \<Rightarrow>
          if c = CHR ''e'' \<or> c = CHR ''E'' then
            (case cs of
               [] \<Rightarrow> Failed UnexpectedEOF
             | g # gs \<Rightarrow>
                 if g = CHR ''+'' \<or> g = CHR ''-'' then
                   (case parseDigits gs of
                      Failed f \<Rightarrow> Failed f
                    | Parsed ds r \<Rightarrow> Parsed (c # g # ds) r)
                 else
                   (case parseDigits cs of
                      Failed f \<Rightarrow> Failed f
                    | Parsed ds r \<Rightarrow> Parsed (c # ds) r))
          else Parsed [] s)"

definition parseNumber :: "string \<Rightarrow> string parsed" where
  "parseNumber s =
     (let sign = (if take 1 s = ''-'' then ''-'' else [])
      in case parseInt (drop (length sign) s) of
           Failed f \<Rightarrow> Failed f
         | Parsed ds r \<Rightarrow>
             (case parseFraction r of
                Failed f \<Rightarrow> Failed f
              | Parsed fs r' \<Rightarrow>
                  (case parseExponent r' of
                     Failed f \<Rightarrow> Failed f
                   | Parsed es r'' \<Rightarrow> Parsed (sign @ ds @ fs @ es) r'')))"

definition asValue :: "('a \<Rightarrow> json) \<Rightarrow> 'a parsed \<Rightarrow> json parsed" where
  "asValue f p = (case p of Failed e \<Rightarrow> Failed e | Parsed x r \<Rightarrow> Parsed (f x) r)"

text \<open>
  A value, the members of an object after its opening brace, and the elements of an array
  after its opening bracket. When a key occurs twice, the later value replaces the
  earlier one, as assignments to a map do. The first argument bounds the number of nested
  calls; it is the text itself, which is enough since every call but the first comes after
  a byte that has been read.
\<close>

fun parseValue :: "string \<Rightarrow> string \<Rightarrow> json parsed"
  and parseMembers :: "string \<Rightarrow> (string \<times> json) list \<Rightarrow> string \<Rightarrow> json parsed"
  and parseElements :: "string \<Rightarrow> json list \<Rightarrow> string \<Rightarrow> json parsed" where
  "parseValue [] s = Failed UnexpectedEOF"
| "parseValue (f # fuel) s =
     (case skipSpace s of
        [] \<Rightarrow> Failed UnexpectedEOF
      | c # cs \<Rightarrow>
          if c = CHR ''{'' then
            (case skipSpace cs of
               [] \<Rightarrow> Failed UnexpectedEOF
             | d # ds \<Rightarrow> if d = CHR ''}'' then Parsed (JObject []) ds
                        else parseMembers fuel [] (d # ds))
          else if c = CHR ''['' then
            (case skipSpace cs of
               [] \<Rightarrow> Failed UnexpectedEOF
             | d # ds \<Rightarrow> if d = CHR '']'' then Parsed (JArray []) ds
                        else parseElements fuel [] (d # ds))
          else if c = CHR 0x22 then asValue JString (parseString cs)
          else if c = CHR ''t'' then expectWord ''rue'' (JBool True) cs
          else if c = CHR ''f'' then expectWord ''alse'' (JBool False) cs
          else if c = CHR ''n'' then expectWord ''ull'' JNull cs
          else if c = CHR ''-'' \<or> isDigit c then asValue JNumber (parseNumber (c # cs))
          else Failed SyntaxError)"
| "parseMembers [] acc s = Failed UnexpectedEOF"
| "parseMembers (f # fuel) acc s =
     (case skipSpace s of
        [] \<Rightarrow> Failed UnexpectedEOF
      | c # cs \<Rightarrow>
          if c \<noteq> CHR 0x22 then Failed SyntaxError
          else
            (case parseString cs of
               Failed e \<Rightarrow> Failed e
             | Parsed key r \<Rightarrow>
                 (case skipSpace r of
                    [] \<Rightarrow> Failed UnexpectedEOF
                  | c2 # r2 \<Rightarrow>
                      if c2 \<noteq> CHR '':'' then Failed SyntaxError
                      else
                        (case parseValue fuel r2 of
                           Failed e \<Rightarrow> Failed e
                         | Parsed v r3 \<Rightarrow>
                             (case skipSpace r3 of
                                [] \<Rightarrow> Failed UnexpectedEOF
                              | c3 # r4 \<Rightarrow>
                                  if c3 = CHR '','' then
                                    parseMembers fuel (AList.update key v acc) r4
                                  else if c3 = CHR ''}'' then
                                    Parsed (JObject (AList.update key v acc)) r4
                                  else Failed SyntaxError)))))"
| "parseElements [] acc s = Failed UnexpectedEOF"
| "parseElements (f # fuel) acc s =
     (case parseValue fuel s of
        Failed e \<Rightarrow> Failed e
      | Parsed v r \<Rightarrow>
          (case skipSpace r of
             [] \<Rightarrow> Failed UnexpectedEOF
           | c # r2 \<Rightarrow>
               if c = CHR '','' then parseElements fuel (acc @ [v]) r2
               else if c = CHR '']'' then Parsed (JArray (acc @ [v])) r2
               else Failed SyntaxError))"

text \<open>
  Decoding into a nil \<^verbatim>\<open>map[string]interface{}\<close>: a body with nothing but white space
  is \<^verbatim>\<open>io.EOF\<close>; an object fills the map; \<^verbatim>\<open>null\<close> leaves the map nil without an
  error; any other value is a type error. What follows the first value is not looked at.
  Two things Go rejects are accepted here: nesting deeper than 10000 and numbers outside
  the range of \<^verbatim>\<open>float64\<close>.
\<close>

definition std_decode :: "string \<Rightarrow> (string \<times> json) list option \<times> error option" where
  "std_decode body =
     (if skipSpace body = [] then (None, Some (DecodeError EOF))
      else
        (case parseValue body body of
           Failed e \<Rightarrow> (None, Some (DecodeError e))
         | Parsed v rest \<Rightarrow>
             (case v of
                JObject m \<Rightarrow> (Some m, None)
              | JNull \<Rightarrow> (None, None)
              | _ \<Rightarrow> (None, Some (DecodeError UnmarshalTypeError)))))"

text \<open>
  Following the spec (section 6: the body of a response must be a valid JSON object): the
  text is one JSON object with nothing but white space around it.
\<close>

definition isJSONObjectText :: "string \<Rightarrow> bool" where
  "isJSONObjectText body =
     (case parseValue body body of
        Parsed (JObject m) rest \<Rightarrow> skipSpace rest = []
      | _ \<Rightarrow> False)"

definition std_env :: "(gval, (string \<times> json) list) env" where
  "std_env =
     \<lparr>marshal = std_marshal,
      toString = std_toString,
      validMethod = std_validMethod,
      parseURL = std_parseURL,
      canonicalMIMEHeaderKey = std_canonicalMIMEHeaderKey,
      parseQuery = std_parseQuery,
      encodeQuery = std_encodeQuery,
      roundTrip = std_roundTrip,
      decode = std_decode\<rparr>"

definition world0 :: world where
  "world0 = \<lparr>allocated = 0, logged = [], sent = []\<rparr>"

text \<open>A client configured for the stand-in server.\<close>

definition exampleClient :: Client where
  "exampleClient =
     \<lparr>client = None, endpoint = ''https://example.test/v1'',
      headers = Some [(''X-Appwrite-Project'', ''p1''), (''X-Appwrite-Key'', ''k1'')],
      selfSigned = False\<rparr>"

section \<open>What Call computes\<close>

lemma ensure_eq:
  "ensureClientInitialized w clt =
     (w\<lparr>allocated := allocatedAfter w clt\<rparr>, clt\<lparr>client := Some (handleOf w clt)\<rparr>)"
  by (cases "client clt") (simp_all add: ensureClientInitialized_def allocatedAfter_def handleOf_def)

lemma prepare_eq:
  "(if ToUpper method \<noteq> ''GET'' then prepareRequestBody env w1 params else (w1, None)) =
     (w1\<lparr>logged := logged w1 @ logLines env method params\<rparr>, requestBody env method params)"
  by (cases "marshal env params")
     (simp_all add: prepareRequestBody_def logLines_def requestBody_def)

lemma prepare_p0_eq:
  "(if ToUpper method \<noteq> ''GET'' then prepareRequestBody_p0 env w1 params else (w1, None)) =
     (w1\<lparr>logged := logged w1 @ logLines_p0 env method params\<rparr>, requestBody env method params)"
  by (cases "marshal env params")
     (simp_all add: prepareRequestBody_p0_def logLines_p0_def requestBody_def)

lemma parse_wrap:
  "(case parseJSONResponse env resp of
      (jsonResponse, Some err) \<Rightarrow> (w3, clt1, Returns (None, Some err))
    | (jsonResponse, None) \<Rightarrow> (w3, clt1, Returns (jsonResponse, None))) =
   (w3, clt1, Returns (parseJSONResponse env resp))"
  by (cases "decode env (RespBody resp)"; cases "snd (decode env (RespBody resp))")
     (simp_all add: parseJSONResponse_def)

lemma Call_eq:
  "Call env w clt method path hdrs params =
     (case outboundRequest env clt method path hdrs params of
        Inl err \<Rightarrow>
          (w\<lparr>allocated := allocatedAfter w clt,
             logged := logged w @ logLines env method params\<rparr>,
           clt\<lparr>client := Some (handleOf w clt)\<rparr>,
           Returns (None, Some err))
      | Inr req \<Rightarrow>
          (w\<lparr>allocated := allocatedAfter w clt,
             logged := logged w @ logLines env method params,
             sent := sent w @ [req]\<rparr>,
           clt\<lparr>client := Some (handleOf w clt)\<rparr>,
           answer env (roundTrip env (sent w) (handleOf w clt) req)))"
proof (cases "NewRequest env method (endpoint clt @ path) (requestBody env method params)")
  case (Inl err)
  then show ?thesis
    unfolding Call_def ensure_eq
    by (simp add: prepare_eq outboundRequest_def)
next
  case (Inr req)
  then show ?thesis
    unfolding Call_def ensure_eq
    by (cases "roundTrip env (sent w) (handleOf w clt)
               (if ToUpper method = ''GET''
                then updateQueryParameters env (setHeaders env req (headers clt) hdrs) params
                else Header_Set env (setHeaders env req (headers clt) hdrs)
                       ''Content-Type'' ''application/json'')")
       (simp_all add: prepare_eq outboundRequest_def Do_def parse_wrap answer_def)
qed

lemma Call_p0_eq:
  "Call_p0 env w clt method path hdrs params =
     (case outboundRequest_p0 env clt method path hdrs params of
        Inl err \<Rightarrow>
          (w\<lparr>allocated := allocatedAfter w clt,
             logged := logged w @ logLines_p0 env method params\<rparr>,
           clt\<lparr>client := Some (handleOf w clt)\<rparr>,
           Returns (None, Some err))
      | Inr req \<Rightarrow>
          (w\<lparr>allocated := allocatedAfter w clt,
             logged := logged w @ logLines_p0 env method params,
             sent := sent w @ [req]\<rparr>,
           clt\<lparr>client := Some (handleOf w clt)\<rparr>,
           answer env (roundTrip env (sent w) (handleOf w clt) req)))"
proof (cases "NewRequest env method (endpoint clt @ path) (requestBody env method params)")
  case (Inl err)
  then show ?thesis
    unfolding Call_p0_def ensure_eq
    by (simp add: prepare_p0_eq outboundRequest_p0_def)
next
  case (Inr req)
  then show ?thesis
    unfolding Call_p0_def ensure_eq
    by (cases "roundTrip env (sent w) (handleOf w clt)
               (if ToUpper method = ''GET''
                then updateQueryParameters env (setHeaders env req (headers clt) hdrs) params
                else setHeaders env req (headers clt) hdrs)")
       (simp_all add: prepare_p0_eq outboundRequest_p0_def Do_def parse_wrap answer_def)
qed

text \<open>The receiver and the counter of allocations after a call.\<close>

lemma Call_receiver:
  "fst (snd (Call env w clt method path hdrs params)) = clt\<lparr>client := Some (handleOf w clt)\<rparr>"
  by (cases "outboundRequest env clt method path hdrs params") (simp_all add: Call_eq)

lemma Call_p0_receiver:
  "fst (snd (Call_p0 env w clt method path hdrs params)) = clt\<lparr>client := Some (handleOf w clt)\<rparr>"
  by (cases "outboundRequest_p0 env clt method path hdrs params") (simp_all add: Call_p0_eq)

lemma Call_allocated:
  "allocated (fst (Call env w clt method path hdrs params)) = allocatedAfter w clt"
  by (cases "outboundRequest env clt method path hdrs params") (simp_all add: Call_eq)

lemma Call_p0_allocated:
  "allocated (fst (Call_p0 env w clt method path hdrs params)) = allocatedAfter w clt"
  by (cases "outboundRequest_p0 env clt method path hdrs params") (simp_all add: Call_p0_eq)

lemma Call_returns:
  "\<exists>r. snd (snd (Call env w clt method path hdrs params)) = Returns r"
  by (cases "outboundRequest env clt method path hdrs params")
     (auto simp: Call_eq answer_def split: sum.splits)

lemma Call_p0_returns:
  "\<exists>r. snd (snd (Call_p0 env w clt method path hdrs params)) = Returns r"
  by (cases "outboundRequest_p0 env clt method path hdrs params")
     (auto simp: Call_p0_eq answer_def split: sum.splits)

lemma Call_sent:
  "sent (fst (Call env w clt method path hdrs params)) =
     sent w @ (case outboundRequest env clt method path hdrs params of
                 Inl err \<Rightarrow> [] | Inr req \<Rightarrow> [req])"
  by (cases "outboundRequest env clt method path hdrs params") (simp_all add: Call_eq)

lemma Call_p0_sent:
  "sent (fst (Call_p0 env w clt method path hdrs params)) =
     sent w @ (case outboundRequest_p0 env clt method path hdrs params of
                 Inl err \<Rightarrow> [] | Inr req \<Rightarrow> [req])"
  by (cases "outboundRequest_p0 env clt method path hdrs params") (simp_all add: Call_p0_eq)

lemma Call_logged:
  "logged (fst (Call env w clt method path hdrs params)) = logged w @ logLines env method params"
  by (cases "outboundRequest env clt method path hdrs params") (simp_all add: Call_eq)

lemma Call_p0_logged:
  "logged (fst (Call_p0 env w clt method path hdrs params)) =
     logged w @ logLines_p0 env method params"
  by (cases "outboundRequest_p0 env clt method path hdrs params") (simp_all add: Call_p0_eq)

lemma Call_result:
  "snd (snd (Call env w clt method path hdrs params)) =
     (case outboundRequest env clt method path hdrs params of
        Inl err \<Rightarrow> Returns (None, Some err)
      | Inr req \<Rightarrow> answer env (roundTrip env (sent w) (handleOf w clt) req))"
  by (cases "outboundRequest env clt method path hdrs params") (simp_all add: Call_eq)

lemma Call_p0_result:
  "snd (snd (Call_p0 env w clt method path hdrs params)) =
     (case outboundRequest_p0 env clt method path hdrs params of
        Inl err \<Rightarrow> Returns (None, Some err)
      | Inr req \<Rightarrow> answer env (roundTrip env (sent w) (handleOf w clt) req))"
  by (cases "outboundRequest_p0 env clt method path hdrs params") (simp_all add: Call_p0_eq)

lemma Call_sent_Inr:
  "sent (fst (Call env w clt method path hdrs params)) = sent w @ [req] \<longleftrightarrow>
     outboundRequest env clt method path hdrs params = Inr req"
  by (cases "outboundRequest env clt method path hdrs params") (simp_all add: Call_sent)

lemma Call_p0_sent_Inr:
  "sent (fst (Call_p0 env w clt method path hdrs params)) = sent w @ [req] \<longleftrightarrow>
     outboundRequest_p0 env clt method path hdrs params = Inr req"
  by (cases "outboundRequest_p0 env clt method path hdrs params") (simp_all add: Call_p0_sent)

section \<open>The receiver across calls\<close>

text \<open>
  C10. \<^verbatim>\<open>Call\<close>, in either file, leaves \<open>endpoint\<close>, \<open>headers\<close> and \<open>selfSigned\<close> of
  the receiver as they are. A receiver that has a transport handle is returned unchanged
  as a whole; a receiver whose handle is nil is changed in that field alone, which then
  holds the newly allocated handle.
\<close>

theorem Call_frame:
  "endpoint (fst (snd (Call env w clt method path hdrs params))) = endpoint clt \<and>
   headers (fst (snd (Call env w clt method path hdrs params))) = headers clt \<and>
   selfSigned (fst (snd (Call env w clt method path hdrs params))) = selfSigned clt \<and>
   fst (snd (Call env w clt method path hdrs params)) =
     (case client clt of None \<Rightarrow> clt\<lparr>client := Some (allocated w)\<rparr> | Some h \<Rightarrow> clt) \<and>
   endpoint (fst (snd (Call_p0 env w clt method path hdrs params))) = endpoint clt \<and>
   headers (fst (snd (Call_p0 env w clt method path hdrs params))) = headers clt \<and>
   selfSigned (fst (snd (Call_p0 env w clt method path hdrs params))) = selfSigned clt \<and>
   fst (snd (Call_p0 env w clt method path hdrs params)) =
     (case client clt of None \<Rightarrow> clt\<lparr>client := Some (allocated w)\<rparr> | Some h \<Rightarrow> clt)"
  by (cases "client clt") (simp_all add: Call_receiver Call_p0_receiver handleOf_def)

text \<open>One step of a program either keeps the handle or creates it from nil.\<close>

lemma setter_client:
  "AddHeader clt k v = Returns clt' \<Longrightarrow> client clt' = client clt"
  "SetProject clt v = Returns clt' \<Longrightarrow> client clt' = client clt"
  "SetKey clt v = Returns clt' \<Longrightarrow> client clt' = client clt"
  "SetLocale clt v = Returns clt' \<Longrightarrow> client clt' = client clt"
  "SetMode clt v = Returns clt' \<Longrightarrow> client clt' = client clt"
  by (auto simp: AddHeader_def SetProject_def SetKey_def SetLocale_def SetMode_def
      split: outcome.splits)

lemma lift_setter_Returns:
  "lift_setter w r = Returns (w', clt') \<longleftrightarrow> w' = w \<and> r = Returns clt'"
  by (cases r) (auto simp: lift_setter_def)

lemma call_step:
  assumes "call = Call env \<or> call = Call_p0 env"
    and "step call (w, clt) (OpCall method path hdrs params) = Returns (w', clt')"
  shows "w' = fst (call w clt method path hdrs params) \<and>
         clt' = fst (snd (call w clt method path hdrs params))"
  using assms(2)
  by (cases "call w clt method path hdrs params")
     (auto split: outcome.splits)

lemma step_handle:
  assumes "call = Call env \<or> call = Call_p0 env"
    and "step call (w, clt) x = Returns (w', clt')"
  shows "(client clt' = client clt \<and> allocated w' = allocated w) \<or>
         (client clt = None \<and> client clt' = Some (allocated w) \<and>
          allocated w' = Suc (allocated w))"
proof (cases x)
  case (OpCall m p h ps)
  from call_step [OF assms(1) assms(2) [unfolded OpCall]]
  have "client clt' = Some (handleOf w clt) \<and> allocated w' = allocatedAfter w clt"
    using assms(1)
    by (auto simp: Call_receiver Call_p0_receiver Call_allocated Call_p0_allocated)
  then show ?thesis
    by (cases "client clt") (simp_all add: handleOf_def allocatedAfter_def)
qed (use assms(2) in \<open>auto simp: lift_setter_Returns SetEndpoint_def SetSelfSigned_def
      dest: setter_client\<close>)

lemma run_handle:
  assumes "call = Call env \<or> call = Call_p0 env"
  shows "run call (w, clt) ops = Returns (w', clt') \<Longrightarrow>
         (client clt' = client clt \<and> allocated w' = allocated w) \<or>
         (client clt = None \<and> client clt' = Some (allocated w) \<and>
          allocated w' = Suc (allocated w))"
proof (induction ops arbitrary: w clt)
  case Nil
  then show ?case by simp
next
  case (Cons x xs)
  from Cons.prems obtain w1 clt1 where
    s: "step call (w, clt) x = Returns (w1, clt1)" and
    r: "run call (w1, clt1) xs = Returns (w', clt')"
    by (cases "step call (w, clt) x") auto
  from step_handle [OF assms s] Cons.IH [OF r] show ?case
    by auto
qed


lemma step_call_Returns:
  "step (Call env) (w, clt) (OpCall method path hdrs params) =
     Returns (fst (Call env w clt method path hdrs params),
              fst (snd (Call env w clt method path hdrs params)))"
  "step (Call_p0 env) (w, clt) (OpCall method path hdrs params) =
     Returns (fst (Call_p0 env w clt method path hdrs params),
              fst (snd (Call_p0 env w clt method path hdrs params)))"
  using Call_returns [of env w clt "method" "path" hdrs params]
    Call_p0_returns [of env w clt "method" "path" hdrs params]
  by (auto simp: split_beta split: outcome.splits)

text \<open>
  C7. A call stores the handle it uses in the receiver: the one the receiver had, or,
  when that was nil, a newly allocated one; only in the second case is anything
  allocated. Over a whole program that uses one client through its exported methods,
  with \<^verbatim>\<open>Call\<close> of either file, the handle either stays what it was from the start
  to the end and nothing is allocated, or it starts as nil, is allocated once, and is the
  one found at the end.
\<close>

theorem handle_created_once:
  assumes "call = Call env \<or> call = Call_p0 env"
  shows "client (fst (snd (call w clt method path hdrs params))) =
           Some (case client clt of None \<Rightarrow> allocated w | Some h \<Rightarrow> h) \<and>
         allocated (fst (call w clt method path hdrs params)) =
           (if client clt = None then Suc (allocated w) else allocated w) \<and>
         (run call (w, clt) ops = Returns (w', clt') \<longrightarrow>
            (client clt' = client clt \<and> allocated w' = allocated w) \<or>
            (client clt = None \<and> client clt' = Some (allocated w) \<and>
             allocated w' = Suc (allocated w)))"
  using assms run_handle [OF assms, of w clt ops w' clt']
  by (auto simp: Call_receiver Call_p0_receiver Call_allocated Call_p0_allocated
      handleOf_def allocatedAfter_def)

theorem handle_created_once_witness:
  "\<exists>w' clt'.
     run (Call std_env) (world0, exampleClient)
       [OpCall ''GET'' ''/health'' None None,
        OpSetProject ''p2'',
        OpCall ''POST'' ''/health'' None (Some [])] = Returns (w', clt') \<and>
     client exampleClient = None \<and> client clt' = Some 0 \<and> allocated w' = 1"
proof -
  define w1 where "w1 = fst (Call std_env world0 exampleClient ''GET'' ''/health'' None None)"
  define c1 where
    "c1 = fst (snd (Call std_env world0 exampleClient ''GET'' ''/health'' None None))"
  note th = handle_created_once [where call = "Call std_env" and env = std_env,
      OF disjI1 [OF refl]]
  have first: "client c1 = Some 0 \<and> allocated w1 = 1"
    using th [of world0 exampleClient "''GET''" "''/health''" None None "[]" world0
        exampleClient]
    by (simp add: c1_def w1_def exampleClient_def world0_def)
  have "headers c1 = Some [(''X-Appwrite-Project'', ''p1''), (''X-Appwrite-Key'', ''k1'')]"
    by (simp add: c1_def Call_receiver exampleClient_def)
  then obtain w' clt' where rest:
    "run (Call std_env) (w1, c1)
       [OpSetProject ''p2'', OpCall ''POST'' ''/health'' None (Some [])] = Returns (w', clt')"
    by (simp add: step_call_Returns(1) lift_setter_def SetProject_def map_assign_def
        del: step.simps(8))
  from th [of w1 c1 "''GET''" "''/health''" None None
      "[OpSetProject ''p2'', OpCall ''POST'' ''/health'' None (Some [])]" w' clt'] rest first
  have last: "client clt' = Some 0 \<and> allocated w' = 1"
    by auto
  have "run (Call std_env) (world0, exampleClient)
       [OpCall ''GET'' ''/health'' None None,
        OpSetProject ''p2'',
        OpCall ''POST'' ''/health'' None (Some [])] = Returns (w', clt')"
    using rest by (simp add: step_call_Returns(1) w1_def c1_def del: step.simps(8))
  with last show ?thesis
    by (auto simp: exampleClient_def)
qed

section \<open>The header map of a zero-value client\<close>

lemma step_headers_None:
  assumes "call = Call env \<or> call = Call_p0 env"
    and "headers clt = None"
    and "step call (w, clt) x = Returns (w', clt')"
  shows "headers clt' = None \<and> \<not> setsHeader x"
proof (cases x)
  case (OpCall m p h ps)
  from call_step [OF assms(1) assms(3) [unfolded OpCall]] assms(1,2) show ?thesis
    by (auto simp: OpCall Call_receiver Call_p0_receiver)
qed (use assms(2,3) in \<open>auto simp: lift_setter_Returns SetEndpoint_def SetSelfSigned_def
      AddHeader_def SetProject_def SetKey_def SetLocale_def SetMode_def map_assign_def\<close>)

lemma run_headers_None:
  assumes "call = Call env \<or> call = Call_p0 env"
  shows "headers clt = None \<Longrightarrow> run call (w, clt) ops = Returns (w', clt') \<Longrightarrow>
         headers clt' = None \<and> \<not> list_ex setsHeader ops"
proof (induction ops arbitrary: w clt)
  case Nil
  then show ?case by simp
next
  case (Cons x xs)
  from Cons.prems(2) obtain w1 clt1 where
    s: "step call (w, clt) x = Returns (w1, clt1)" and
    r: "run call (w1, clt1) xs = Returns (w', clt')"
    by (cases "step call (w, clt) x") auto
  from step_headers_None [OF assms Cons.prems(1) s]
  have h: "headers clt1 = None" and x: "\<not> setsHeader x" by simp_all
  from Cons.IH [OF h r] x show ?case by simp
qed

text \<open>
  C9. On a client whose header map is nil, as it is in the zero value, \<^verbatim>\<open>AddHeader\<close>,
  \<^verbatim>\<open>SetProject\<close>, \<^verbatim>\<open>SetKey\<close>, \<^verbatim>\<open>SetLocale\<close> and \<^verbatim>\<open>SetMode\<close> each panic on the
  assignment to the nil map. No exported method makes the map non-nil:
  \<^verbatim>\<open>SetEndpoint\<close>, \<^verbatim>\<open>SetSelfSigned\<close> and \<^verbatim>\<open>Call\<close> leave it nil, so a program that
  starts from such a client and runs to its end has not called any of the five.
\<close>

theorem nil_headers_panic:
  assumes "headers clt = None"
  shows "AddHeader clt key val = Panics NilMapAssignment \<and>
         SetProject clt val = Panics NilMapAssignment \<and>
         SetKey clt val = Panics NilMapAssignment \<and>
         SetLocale clt val = Panics NilMapAssignment \<and>
         SetMode clt val = Panics NilMapAssignment \<and>
         headers (SetEndpoint clt e) = None \<and>
         headers (SetSelfSigned clt b) = None \<and>
         headers (fst (snd (Call env w clt method path hdrs params))) = None \<and>
         headers (fst (snd (Call_p0 env w clt method path hdrs params))) = None \<and>
         (run (Call env) (w, clt) ops = Returns (w', clt') \<longrightarrow>
            headers clt' = None \<and> \<not> list_ex setsHeader ops) \<and>
         (run (Call_p0 env) (w, clt) ops = Returns (w', clt') \<longrightarrow>
            headers clt' = None \<and> \<not> list_ex setsHeader ops)"
  using assms run_headers_None [of "Call env" env clt w ops w' clt']
    run_headers_None [of "Call_p0 env" env clt w ops w' clt']
  by (simp add: AddHeader_def SetProject_def SetKey_def SetLocale_def SetMode_def
      map_assign_def SetEndpoint_def SetSelfSigned_def Call_receiver Call_p0_receiver)

theorem nil_headers_panic_witness:
  "headers zeroClient = None \<and>
   AddHeader zeroClient ''X-Custom'' ''1'' = Panics NilMapAssignment \<and>
   SetProject zeroClient ''p1'' = Panics NilMapAssignment \<and>
   SetKey zeroClient ''p1'' = Panics NilMapAssignment \<and>
   SetLocale zeroClient ''p1'' = Panics NilMapAssignment \<and>
   SetMode zeroClient ''p1'' = Panics NilMapAssignment \<and>
   run (Call std_env) (world0, zeroClient)
     [OpSetEndpoint ''https://example.test/v1'', OpSetProject ''p1''] =
     Panics NilMapAssignment"
proof -
  have z: "headers zeroClient = None"
    by (simp add: zeroClient_def)
  note p = nil_headers_panic [of zeroClient _ _ "''https://example.test/v1''" True std_env
      world0 "''GET''" "''/health''" None None "[]" world0 zeroClient, OF z]
  from p [of "''X-Custom''" "''1''"]
  have "AddHeader zeroClient ''X-Custom'' ''1'' = Panics NilMapAssignment"
    by simp
  moreover from p [of "''X-Custom''" "''p1''"]
  have "SetProject zeroClient ''p1'' = Panics NilMapAssignment \<and>
        SetKey zeroClient ''p1'' = Panics NilMapAssignment \<and>
        SetLocale zeroClient ''p1'' = Panics NilMapAssignment \<and>
        SetMode zeroClient ''p1'' = Panics NilMapAssignment \<and>
        headers (SetEndpoint zeroClient ''https://example.test/v1'') = None"
    by simp
  ultimately show ?thesis
    using z by (simp add: lift_setter_def SetProject_def map_assign_def)
qed

section \<open>Recognising GET\<close>

lemma toUpperByte_G: "toUpperByte c = CHR ''G'' \<longleftrightarrow> c = CHR ''g'' \<or> c = CHR ''G''"
  by (simp add: toUpperByte_def)

lemma toUpperByte_E: "toUpperByte c = CHR ''E'' \<longleftrightarrow> c = CHR ''e'' \<or> c = CHR ''E''"
  by (simp add: toUpperByte_def)

lemma toUpperByte_T: "toUpperByte c = CHR ''T'' \<longleftrightarrow> c = CHR ''t'' \<or> c = CHR ''T''"
  by (simp add: toUpperByte_def)

text \<open>The methods \<^verbatim>\<open>Call\<close> treats as GET are the eight spellings of the word.\<close>

lemma ToUpper_GET_iff:
  "ToUpper m = ''GET'' \<longleftrightarrow>
     m \<in> {''get'', ''geT'', ''gEt'', ''gET'', ''Get'', ''GeT'', ''GEt'', ''GET''}"
proof -
  have "ToUpper m = ''GET'' \<longleftrightarrow>
        (\<exists>a b c. m = [a, b, c] \<and> toUpperByte a = CHR ''G'' \<and> toUpperByte b = CHR ''E'' \<and>
                 toUpperByte c = CHR ''T'')"
    unfolding ToUpper_def by (auto simp: map_eq_Cons_conv)
  also have "\<dots> \<longleftrightarrow>
        (\<exists>a b c. m = [a, b, c] \<and> (a = CHR ''g'' \<or> a = CHR ''G'') \<and>
                 (b = CHR ''e'' \<or> b = CHR ''E'') \<and> (c = CHR ''t'' \<or> c = CHR ''T''))"
    by (simp only: toUpperByte_G toUpperByte_E toUpperByte_T)
  also have "\<dots> \<longleftrightarrow>
        m \<in> {''get'', ''geT'', ''gEt'', ''gET'', ''Get'', ''GeT'', ''GEt'', ''GET''}"
    by auto
  finally show ?thesis .
qed

section \<open>The request that is built\<close>

lemma Header_fold_Body [simp]:
  "Body (fold (\<lambda>(key, val) r. Header_Set env r key (f val)) xs req) = Body req"
  by (induction xs arbitrary: req) (auto simp: Header_Set_def)

lemma Header_fold_URL [simp]:
  "URL (fold (\<lambda>(key, val) r. Header_Set env r key (f val)) xs req) = URL req"
  by (induction xs arbitrary: req) (auto simp: Header_Set_def)

lemma Header_fold_Method [simp]:
  "Method (fold (\<lambda>(key, val) r. Header_Set env r key (f val)) xs req) = Method req"
  by (induction xs arbitrary: req) (auto simp: Header_Set_def)

text \<open>A loop of \<^verbatim>\<open>Header.Set\<close> leaves the keys alone that it does not store under.\<close>

lemma Header_fold_miss:
  "c \<notin> (\<lambda>x. canonicalMIMEHeaderKey env (fst x)) ` set xs \<Longrightarrow>
   Header (fold (\<lambda>(key, val) r. Header_Set env r key (f val)) xs req) c = Header req c"
  by (induction xs arbitrary: req) (auto simp: Header_Set_def)

text \<open>
  Under a key that it does store under, the loop leaves the value it stored last; when
  all entries for that key carry the same value, this is that value.
\<close>

lemma Header_fold_hit:
  "\<exists>x \<in> set xs. canonicalMIMEHeaderKey env (fst x) = c \<Longrightarrow>
   \<forall>x \<in> set xs. canonicalMIMEHeaderKey env (fst x) = c \<longrightarrow> f (snd x) = s \<Longrightarrow>
   Header (fold (\<lambda>(key, val) r. Header_Set env r key (f val)) xs req) c = Some [s]"
proof (induction xs arbitrary: req)
  case Nil
  then show ?case by simp
next
  case (Cons x xs)
  show ?case
  proof (cases "\<exists>y \<in> set xs. canonicalMIMEHeaderKey env (fst y) = c")
    case True
    with Cons show ?thesis by (cases x) simp
  next
    case False
    then have miss: "c \<notin> (\<lambda>x. canonicalMIMEHeaderKey env (fst x)) ` set xs" by auto
    from False Cons.prems have hit: "canonicalMIMEHeaderKey env (fst x) = c" "f (snd x) = s"
      by auto
    have "Header (fold (\<lambda>(key, val) r. Header_Set env r key (f val)) (x # xs) req) c =
          Header (Header_Set env req (fst x) (f (snd x))) c"
      by (simp add: Header_fold_miss [OF miss] case_prod_beta)
    also have "\<dots> = Some [s]"
      using hit by (simp add: Header_Set_def)
    finally show ?thesis .
  qed
qed

lemma setHeaders_fields [simp]:
  "Body (setHeaders env req cl cu) = Body req"
  "URL (setHeaders env req cl cu) = URL req"
  "Method (setHeaders env req cl cu) = Method req"
  using Header_fold_Body [where f = "\<lambda>v. v"] Header_fold_URL [where f = "\<lambda>v. v"]
    Header_fold_Method [where f = "\<lambda>v. v"]
  by (simp_all add: setHeaders_def)

text \<open>After both loops of \<^verbatim>\<open>setHeaders\<close>: a custom header is there.\<close>

lemma setHeaders_custom:
  assumes "\<exists>x \<in> set (entries cu). canonicalMIMEHeaderKey env (fst x) = c"
    and "\<forall>x \<in> set (entries cu). canonicalMIMEHeaderKey env (fst x) = c \<longrightarrow>
           toString env (snd x) = s"
  shows "Header (setHeaders env req cl cu) c = Some [s]"
  unfolding setHeaders_def Let_def
  by (rule Header_fold_hit [OF assms])

text \<open>A default header is there when no custom header has its key.\<close>

lemma setHeaders_default:
  assumes "c \<notin> (\<lambda>x. canonicalMIMEHeaderKey env (fst x)) ` set (entries cu)"
    and "\<exists>x \<in> set (entries cl). canonicalMIMEHeaderKey env (fst x) = c"
    and "\<forall>x \<in> set (entries cl). canonicalMIMEHeaderKey env (fst x) = c \<longrightarrow> snd x = s"
  shows "Header (setHeaders env req cl cu) c = Some [s]"
proof -
  have "Header (setHeaders env req cl cu) c =
        Header (fold (\<lambda>(key, val) r. Header_Set env r key val) (entries cl) req) c"
    unfolding setHeaders_def Let_def
    by (rule Header_fold_miss [OF assms(1)])
  also have "\<dots> = Some [s]"
    using Header_fold_hit [where f = "\<lambda>v. v", OF assms(2) assms(3)] by simp
  finally show ?thesis .
qed

lemma NewRequest_Inr:
  "NewRequest env m urlStr body = Inr req \<Longrightarrow>
   Body req = body \<and> Header req = Map.empty \<and> parseURL env urlStr = Inr (URL req)"
  by (auto simp: NewRequest_def Let_def split: if_splits sum.splits)

text \<open>The values of a query after the loop of \<^verbatim>\<open>updateQueryParameters\<close>.\<close>

lemma Values_Get_Add:
  "Values_Get (Values_Add q k v) k' = (if k' = k then Values_Get q k @ [v] else Values_Get q k')"
  by (simp add: Values_Get_def Values_Add_def update_conv')

lemma Values_fold_keeps:
  "s \<in> set (Values_Get q k) \<Longrightarrow>
   s \<in> set (Values_Get (fold (\<lambda>(key, val) q. Values_Add q key (f val)) xs q) k)"
proof (induction xs arbitrary: q)
  case Nil
  then show ?case by simp
next
  case (Cons x xs)
  from Cons.prems have "s \<in> set (Values_Get (Values_Add q (fst x) (f (snd x))) k)"
    by (auto simp: Values_Get_Add)
  from Cons.IH [OF this] show ?case
    by (simp add: case_prod_beta)
qed

lemma Values_fold_has:
  "(k, v) \<in> set xs \<Longrightarrow>
   f v \<in> set (Values_Get (fold (\<lambda>(key, val) q. Values_Add q key (f val)) xs q) k)"
proof (induction xs arbitrary: q)
  case Nil
  then show ?case by simp
next
  case (Cons x xs)
  show ?case
  proof (cases "(k, v) \<in> set xs")
    case True
    from Cons.IH [OF this] show ?thesis by (simp add: case_prod_beta)
  next
    case False
    with Cons.prems have x: "x = (k, v)" by simp
    have "f v \<in> set (Values_Get (Values_Add q k (f v)) k)"
      by (simp add: Values_Get_Add)
    from Values_fold_keeps [OF this] show ?thesis
      by (simp add: x)
  qed
qed

lemma queryValues_has:
  "(k, v) \<in> set (entries params) \<Longrightarrow>
   toString env v \<in> set (Values_Get (queryValues env rawQuery params) k)"
  unfolding queryValues_def by (rule Values_fold_has)

text \<open>What a GET request looks like, in both files.\<close>

lemma outbound_GET:
  assumes "ToUpper method = ''GET''"
    and "outboundRequest env clt method path hdrs params = Inr req \<or>
         outboundRequest_p0 env clt method path hdrs params = Inr req"
  shows "Body req = None \<and>
         (\<exists>u. parseURL env (endpoint clt @ path) = Inr u \<and>
              RawQuery (URL req) = encodeQuery env (queryValues env (RawQuery u) params))"
proof -
  from assms obtain r where
    n: "NewRequest env method (endpoint clt @ path) None = Inr r" and
    req: "req = updateQueryParameters env (setHeaders env r (headers clt) hdrs) params"
    by (auto simp: outboundRequest_def outboundRequest_p0_def requestBody_def
        split: sum.splits)
  from NewRequest_Inr [OF n] show ?thesis
    by (simp add: req updateQueryParameters_def)
qed

text \<open>What a request of another method looks like.\<close>

lemma outbound_other:
  assumes "ToUpper method \<noteq> ''GET''"
    and "outboundRequest env clt method path hdrs params = Inr req"
  shows "Body req = requestBody env method params \<and>
         Header req (canonicalMIMEHeaderKey env ''Content-Type'') = Some [''application/json'']"
proof -
  from assms obtain r where
    n: "NewRequest env method (endpoint clt @ path) (requestBody env method params) = Inr r" and
    req: "req = Header_Set env (setHeaders env r (headers clt) hdrs)
                  ''Content-Type'' ''application/json''"
    by (auto simp: outboundRequest_def split: sum.splits)
  from NewRequest_Inr [OF n] show ?thesis
    by (simp add: req Header_Set_def)
qed

lemma outbound_p0_other:
  assumes "ToUpper method \<noteq> ''GET''"
    and "outboundRequest_p0 env clt method path hdrs params = Inr req"
  shows "Body req = requestBody env method params"
proof -
  from assms obtain r where
    n: "NewRequest env method (endpoint clt @ path) (requestBody env method params) = Inr r" and
    req: "req = setHeaders env r (headers clt) hdrs"
    by (auto simp: outboundRequest_p0_def split: sum.splits)
  from NewRequest_Inr [OF n] show ?thesis
    by (simp add: req)
qed

section \<open>Running the model on the stand-in\<close>

lemmas std_defs =
  std_env_def std_validMethod_def isTokenByte_def isAlnum_def std_parseURL_def cutAt_def
  isControlByte_def std_canonicalMIMEHeaderKey_def toLowerByte_def toUpperByte_def
  std_parseQuery_def Values_Add_pair_def std_encodeQuery_def sortByKey_def QueryEscape_def
  queryEscapeByte_def hexDigit_def std_marshal_def jsonQuote_def std_roundTrip_def

lemmas build_defs =
  outboundRequest_def outboundRequest_p0_def NewRequest_def requestBody_def ToUpper_def
  setHeaders_def entries_def Header_Set_def updateQueryParameters_def queryValues_def
  Values_Add_def Values_Get_def Let_def

lemma example_get:
  "outboundRequest std_env exampleClient ''get'' ''/health?x=1'' None
     (Some [(''limit'', GString ''25'')]) =
   Inr \<lparr>Method = ''get'',
        URL = \<lparr>Base = ''https://example.test/v1/health'', RawQuery = ''limit=25&x=1'',
               Fragment = []\<rparr>,
        Header = [''X-Appwrite-Project'' \<mapsto> [''p1''], ''X-Appwrite-Key'' \<mapsto> [''k1'']],
        Body = None\<rparr>"
  by (simp add: build_defs std_defs exampleClient_def)

lemma example_post:
  \<open>outboundRequest std_env exampleClient ''POST'' ''/databases''
     (Some [(''content-type'', GString ''text/plain'')])
     (Some [(''name'', GString ''db1'')]) =
   Inr \<lparr>Method = ''POST'',
        URL = \<lparr>Base = ''https://example.test/v1/databases'', RawQuery = [], Fragment = []\<rparr>,
        Header = [''X-Appwrite-Project'' \<mapsto> [''p1''], ''X-Appwrite-Key'' \<mapsto> [''k1''],
                  ''Content-Type'' \<mapsto> [''application/json'']],
        Body = Some ''{"name":"db1"}''\<rparr>\<close>
  by (simp add: build_defs std_defs exampleClient_def)

text \<open>The decoder on the bodies the server sends.\<close>

lemma decode_examples:
  \<open>std_decode ''{"ok":true}'' = (Some [(''ok'', JBool True)], None)\<close>
  \<open>std_decode ''{"message":"not found"}'' = (Some [(''message'', JString ''not found'')], None)\<close>
  \<open>std_decode ''<html>Bad Gateway</html>'' = (None, Some (DecodeError SyntaxError))\<close>
  \<open>std_decode ''{"ok":true}<html>'' = (Some [(''ok'', JBool True)], None)\<close>
  \<open>std_decode ''null'' = (None, None)\<close>
  by code_simp+

lemma object_text_examples:
  \<open>isJSONObjectText ''{"ok":true}''\<close>
  \<open>\<not> isJSONObjectText ''{"ok":true}<html>''\<close>
  \<open>\<not> isJSONObjectText ''null''\<close>
  \<open>\<not> isJSONObjectText ''<html>Bad Gateway</html>''\<close>
  by code_simp+

section \<open>Requests by method\<close>

text \<open>
  C3. When the method is one of the spellings of GET and \<^verbatim>\<open>Call\<close>, of either file,
  hands a request to the transport, that request has no body, and its raw query is the
  encoding of a set of values in which every entry of \<open>params\<close> occurs: under its key,
  the string that \<^verbatim>\<open>ToString\<close> gives for its value.
\<close>

theorem get_request:
  assumes "call = Call env \<or> call = Call_p0 env"
    and "method \<in> {''get'', ''geT'', ''gEt'', ''gET'', ''Get'', ''GeT'', ''GEt'', ''GET''}"
    and "sent (fst (call w clt method path hdrs params)) = sent w @ [req]"
  shows "Body req = None \<and>
         (\<exists>u. parseURL env (endpoint clt @ path) = Inr u \<and>
              RawQuery (URL req) = encodeQuery env (queryValues env (RawQuery u) params) \<and>
              (\<forall>(k, v) \<in> set (entries params).
                 toString env v \<in> set (Values_Get (queryValues env (RawQuery u) params) k)))"
proof -
  from assms(2) have get: "ToUpper method = ''GET''"
    by (simp only: ToUpper_GET_iff)
  from assms(1,3) have
    "outboundRequest env clt method path hdrs params = Inr req \<or>
     outboundRequest_p0 env clt method path hdrs params = Inr req"
    by (auto simp: Call_sent_Inr Call_p0_sent_Inr)
  from outbound_GET [OF get this] show ?thesis
    by (auto simp: queryValues_has)
qed

theorem get_request_witness:
  "''get'' \<in> {''get'', ''geT'', ''gEt'', ''gET'', ''Get'', ''GeT'', ''GEt'', ''GET''} \<and>
   sent (fst (Call std_env world0 exampleClient ''get'' ''/health?x=1'' None
                (Some [(''limit'', GString ''25'')]))) =
     sent world0 @
     [\<lparr>Method = ''get'',
       URL = \<lparr>Base = ''https://example.test/v1/health'', RawQuery = ''limit=25&x=1'',
              Fragment = []\<rparr>,
       Header = [''X-Appwrite-Project'' \<mapsto> [''p1''], ''X-Appwrite-Key'' \<mapsto> [''k1'']],
       Body = None\<rparr>] \<and>
   (\<exists>u. parseURL std_env (endpoint exampleClient @ ''/health?x=1'') = Inr u \<and>
        ''limit=25&x=1'' =
          encodeQuery std_env (queryValues std_env (RawQuery u) (Some [(''limit'', GString ''25'')])) \<and>
        toString std_env (GString ''25'') \<in>
          set (Values_Get (queryValues std_env (RawQuery u) (Some [(''limit'', GString ''25'')]))
                 ''limit''))"
proof -
  have s: "sent (fst (Call std_env world0 exampleClient ''get'' ''/health?x=1'' None
                (Some [(''limit'', GString ''25'')]))) =
     sent world0 @
     [\<lparr>Method = ''get'',
       URL = \<lparr>Base = ''https://example.test/v1/health'', RawQuery = ''limit=25&x=1'',
              Fragment = []\<rparr>,
       Header = [''X-Appwrite-Project'' \<mapsto> [''p1''], ''X-Appwrite-Key'' \<mapsto> [''k1'']],
       Body = None\<rparr>]"
    by (simp only: Call_sent_Inr example_get)
  from get_request [OF disjI1 [OF refl] _ s] s show ?thesis
    by (simp add: entries_def)
qed

text \<open>
  C2. What the code does for a method that is none of the spellings of GET, when
  \<^verbatim>\<open>Call\<close> hands a request to the transport: the body of that request is the JSON
  encoding of \<open>params\<close> when \<^verbatim>\<open>json.Marshal\<close> gives one, and nil when
  \<^verbatim>\<open>json.Marshal\<close> fails, in both files; in \<^verbatim>\<open>client.go\<close> the request carries
  \<^verbatim>\<open>Content-Type: application/json\<close> whatever the parameters and the two header maps
  are.
\<close>

theorem non_get_request:
  assumes "method \<notin> {''get'', ''geT'', ''gEt'', ''gET'', ''Get'', ''GeT'', ''GEt'', ''GET''}"
  shows "(sent (fst (Call env w clt method path hdrs params)) = sent w @ [req] \<longrightarrow>
            Body req = (case marshal env params of Inl e \<Rightarrow> None | Inr js \<Rightarrow> Some js) \<and>
            Header req (canonicalMIMEHeaderKey env ''Content-Type'') =
              Some [''application/json'']) \<and>
         (sent (fst (Call_p0 env w clt method path hdrs params)) = sent w @ [req'] \<longrightarrow>
            Body req' = (case marshal env params of Inl e \<Rightarrow> None | Inr js \<Rightarrow> Some js))"
proof -
  from assms have other: "ToUpper method \<noteq> ''GET''"
    by (simp only: ToUpper_GET_iff) simp
  then have body: "requestBody env method params =
      (case marshal env params of Inl e \<Rightarrow> None | Inr js \<Rightarrow> Some js)"
    by (simp add: requestBody_def)
  have "outboundRequest env clt method path hdrs params = Inr req \<longrightarrow>
          Body req = (case marshal env params of Inl e \<Rightarrow> None | Inr js \<Rightarrow> Some js) \<and>
          Header req (canonicalMIMEHeaderKey env ''Content-Type'') = Some [''application/json'']"
    using outbound_other [OF other, of env clt path hdrs params req] body by simp
  moreover have "outboundRequest_p0 env clt method path hdrs params = Inr req' \<longrightarrow>
          Body req' = (case marshal env params of Inl e \<Rightarrow> None | Inr js \<Rightarrow> Some js)"
    using outbound_p0_other [OF other, of env clt path hdrs params req'] body by simp
  ultimately show ?thesis
    by (simp only: Call_sent_Inr Call_p0_sent_Inr)
qed

lemma example_chan:
  "outboundRequest std_env exampleClient ''POST'' ''/databases'' None (Some [(''c'', GChan)]) =
   Inr \<lparr>Method = ''POST'',
        URL = \<lparr>Base = ''https://example.test/v1/databases'', RawQuery = [], Fragment = []\<rparr>,
        Header = [''X-Appwrite-Project'' \<mapsto> [''p1''], ''X-Appwrite-Key'' \<mapsto> [''k1''],
                  ''Content-Type'' \<mapsto> [''application/json'']],
        Body = None\<rparr>"
  by (simp add: build_defs std_defs exampleClient_def)

theorem non_get_request_witness:
  \<open>''POST'' \<notin> {''get'', ''geT'', ''gEt'', ''gET'', ''Get'', ''GeT'', ''GEt'', ''GET''} \<and>
   marshal std_env (Some [(''c'', GChan)]) =
     Inl (MarshalError ''json: unsupported type: chan int'') \<and>
   sent (fst (Call std_env world0 exampleClient ''POST'' ''/databases'' None
                (Some [(''c'', GChan)]))) =
     sent world0 @
     [\<lparr>Method = ''POST'',
       URL = \<lparr>Base = ''https://example.test/v1/databases'', RawQuery = [], Fragment = []\<rparr>,
       Header = [''X-Appwrite-Project'' \<mapsto> [''p1''], ''X-Appwrite-Key'' \<mapsto> [''k1''],
                 ''Content-Type'' \<mapsto> [''application/json'']],
       Body = None\<rparr>] \<and>
   marshal std_env (Some [(''name'', GString ''db1'')]) = Inr ''{"name":"db1"}'' \<and>
   sent (fst (Call std_env world0 exampleClient ''POST'' ''/databases''
                (Some [(''content-type'', GString ''text/plain'')])
                (Some [(''name'', GString ''db1'')]))) =
     sent world0 @
     [\<lparr>Method = ''POST'',
       URL = \<lparr>Base = ''https://example.test/v1/databases'', RawQuery = [], Fragment = []\<rparr>,
       Header = [''X-Appwrite-Project'' \<mapsto> [''p1''], ''X-Appwrite-Key'' \<mapsto> [''k1''],
                 ''Content-Type'' \<mapsto> [''application/json'']],
       Body = Some ''{"name":"db1"}''\<rparr>] \<and>
   canonicalMIMEHeaderKey std_env ''Content-Type'' = ''Content-Type''\<close>
proof -
  have p: "''POST'' \<notin> {''get'', ''geT'', ''gEt'', ''gET'', ''Get'', ''GeT'', ''GEt'', ''GET''}"
    by simp
  have bad: "marshal std_env (Some [(''c'', GChan)]) =
      Inl (MarshalError ''json: unsupported type: chan int'')"
    by (simp add: std_env_def std_marshal_def)
  have s_bad: "sent (fst (Call std_env world0 exampleClient ''POST'' ''/databases'' None
                (Some [(''c'', GChan)]))) =
     sent world0 @
     [\<lparr>Method = ''POST'',
       URL = \<lparr>Base = ''https://example.test/v1/databases'', RawQuery = [], Fragment = []\<rparr>,
       Header = [''X-Appwrite-Project'' \<mapsto> [''p1''], ''X-Appwrite-Key'' \<mapsto> [''k1''],
                 ''Content-Type'' \<mapsto> [''application/json'']],
       Body = None\<rparr>]"
    by (simp only: Call_sent_Inr example_chan)
  have good: \<open>marshal std_env (Some [(''name'', GString ''db1'')]) = Inr ''{"name":"db1"}''\<close>
    by (simp add: std_defs)
  have s_good: \<open>sent (fst (Call std_env world0 exampleClient ''POST'' ''/databases''
                (Some [(''content-type'', GString ''text/plain'')])
                (Some [(''name'', GString ''db1'')]))) =
     sent world0 @
     [\<lparr>Method = ''POST'',
       URL = \<lparr>Base = ''https://example.test/v1/databases'', RawQuery = [], Fragment = []\<rparr>,
       Header = [''X-Appwrite-Project'' \<mapsto> [''p1''], ''X-Appwrite-Key'' \<mapsto> [''k1''],
                 ''Content-Type'' \<mapsto> [''application/json'']],
       Body = Some ''{"name":"db1"}''\<rparr>]\<close>
    by (simp only: Call_sent_Inr example_post)
  from non_get_request [OF p, of std_env world0 exampleClient "''/databases''" None
      "Some [(''c'', GChan)]"] s_bad bad
    non_get_request [OF p, of std_env world0 exampleClient "''/databases''"
      "Some [(''content-type'', GString ''text/plain'')]" "Some [(''name'', GString ''db1'')]"]
    s_good good
  show ?thesis
    by (simp add: std_defs)
qed

section \<open>The two layers of headers\<close>

text \<open>A loop of \<^verbatim>\<open>Header.Set\<close> leaves under each key the value it stored last.\<close>

lemma Header_fold_last:
  "Header (fold (\<lambda>(key, val) r. Header_Set env r key (f val)) xs req) c =
     (case lastValue (canonicalMIMEHeaderKey env) c xs of
        Some v \<Rightarrow> Some [f v]
      | None \<Rightarrow> Header req c)"
proof (induction xs arbitrary: req)
  case Nil
  then show ?case by simp
next
  case (Cons x xs)
  obtain k v where x: "x = (k, v)" by (cases x)
  have step: "Header (Header_Set env req k (f v)) c =
      (if canonicalMIMEHeaderKey env k = c then Some [f v] else Header req c)"
    by (simp add: Header_Set_def)
  show ?case
    by (simp add: x Cons.IH [of "Header_Set env req k (f v)"] step split: option.split)
qed

lemma lastValue_Some:
  "lastValue canon c xs = Some v \<Longrightarrow> \<exists>k. (k, v) \<in> set xs \<and> canon k = c"
  by (induction xs) (auto split: option.splits if_splits)

lemma lastValue_None:
  "lastValue canon c xs = None \<longleftrightarrow> (\<forall>(k, v) \<in> set xs. canon k \<noteq> c)"
  by (induction xs) (auto split: option.splits)

lemma setHeaders_layered:
  "Header req = Map.empty \<Longrightarrow> Header (setHeaders env req cl cu) c = layeredValue env cl cu c"
  using Header_fold_last [where f = "\<lambda>v. v" and env = env and c = c and req = req
      and xs = "entries cl"]
  by (simp add: setHeaders_def layeredValue_def Header_fold_last split: option.split)

text \<open>The header of the request that goes out, in each of the two files.\<close>

lemma outbound_layered:
  assumes "outboundRequest env clt method path hdrs params = Inr req"
  shows "Header req c =
           (if ToUpper method \<noteq> ''GET'' \<and> c = canonicalMIMEHeaderKey env ''Content-Type''
            then Some [''application/json'']
            else layeredValue env (headers clt) hdrs c)"
proof -
  from assms obtain r where
    n: "NewRequest env method (endpoint clt @ path) (requestBody env method params) = Inr r" and
    req: "req = (if ToUpper method = ''GET''
                 then updateQueryParameters env (setHeaders env r (headers clt) hdrs) params
                 else Header_Set env (setHeaders env r (headers clt) hdrs)
                        ''Content-Type'' ''application/json'')"
    by (auto simp: outboundRequest_def split: sum.splits)
  from NewRequest_Inr [OF n] have "Header r = Map.empty" by simp
  note layered = setHeaders_layered [OF this]
  show ?thesis
    by (simp add: req updateQueryParameters_def Header_Set_def layered)
qed

lemma outbound_p0_layered:
  assumes "outboundRequest_p0 env clt method path hdrs params = Inr req"
  shows "Header req c = layeredValue env (headers clt) hdrs c"
proof -
  from assms obtain r where
    n: "NewRequest env method (endpoint clt @ path) (requestBody env method params) = Inr r" and
    req: "req = (if ToUpper method = ''GET''
                 then updateQueryParameters env (setHeaders env r (headers clt) hdrs) params
                 else setHeaders env r (headers clt) hdrs)"
    by (auto simp: outboundRequest_p0_def split: sum.splits)
  from NewRequest_Inr [OF n] have "Header r = Map.empty" by simp
  note layered = setHeaders_layered [OF this]
  show ?thesis
    by (simp add: req updateQueryParameters_def layered)
qed

text \<open>
  C4, amended. Every header is set under the canonical form of its key, the default
  headers first and the custom headers after them. The request that \<^verbatim>\<open>Call\<close> hands to
  the transport carries, under each key, the value of the custom header set last under
  that key and, when there is none, the value of the default header set last under it;
  in \<^verbatim>\<open>client.go\<close>, for a method that is not a spelling of GET, the key of
  \<^verbatim>\<open>Content-Type\<close> is the exception and carries \<^verbatim>\<open>application/json\<close>. So under the
  key of a custom header the value is always that of a custom header with this key,
  never that of a default header; it is the value of the given custom header when all
  custom headers with this key carry the same value, as when it is the only one; and a
  default header whose key no custom header has, and whose value all default headers
  with this key carry, is there with its value.
\<close>

theorem header_layers:
  "(sent (fst (Call env w clt method path hdrs params)) = sent w @ [req] \<longrightarrow>
      Header req c =
        (if method \<notin> {''get'', ''geT'', ''gEt'', ''gET'', ''Get'', ''GeT'', ''GEt'', ''GET''} \<and>
            c = canonicalMIMEHeaderKey env ''Content-Type''
         then Some [''application/json'']
         else layeredValue env (headers clt) hdrs c)) \<and>
   (sent (fst (Call_p0 env w clt method path hdrs params)) = sent w @ [req'] \<longrightarrow>
      Header req' c = layeredValue env (headers clt) hdrs c) \<and>
   ((k, v) \<in> set (entries hdrs) \<longrightarrow>
      (\<exists>(k', v') \<in> set (entries hdrs).
         canonicalMIMEHeaderKey env k' = canonicalMIMEHeaderKey env k \<and>
         layeredValue env (headers clt) hdrs (canonicalMIMEHeaderKey env k) =
           Some [toString env v'])) \<and>
   ((k, v) \<in> set (entries hdrs) \<and>
    (\<forall>(k', v') \<in> set (entries hdrs).
       canonicalMIMEHeaderKey env k' = canonicalMIMEHeaderKey env k \<longrightarrow> v' = v) \<longrightarrow>
      layeredValue env (headers clt) hdrs (canonicalMIMEHeaderKey env k) =
        Some [toString env v]) \<and>
   ((dk, dv) \<in> set (entries (headers clt)) \<and>
    (\<forall>(k', v') \<in> set (entries (headers clt)).
       canonicalMIMEHeaderKey env k' = canonicalMIMEHeaderKey env dk \<longrightarrow> v' = dv) \<and>
    (\<forall>(k', v') \<in> set (entries hdrs).
       canonicalMIMEHeaderKey env k' \<noteq> canonicalMIMEHeaderKey env dk) \<longrightarrow>
      layeredValue env (headers clt) hdrs (canonicalMIMEHeaderKey env dk) = Some [dv])"
proof -
  let ?canon = "canonicalMIMEHeaderKey env"
  have call: "Header req c =
        (if method \<notin> {''get'', ''geT'', ''gEt'', ''gET'', ''Get'', ''GeT'', ''GEt'', ''GET''} \<and>
            c = ?canon ''Content-Type''
         then Some [''application/json'']
         else layeredValue env (headers clt) hdrs c)"
    if "sent (fst (Call env w clt method path hdrs params)) = sent w @ [req]"
  proof -
    from that have "outboundRequest env clt method path hdrs params = Inr req"
      by (simp only: Call_sent_Inr)
    from outbound_layered [OF this, of c] show ?thesis
      by (simp only: ToUpper_GET_iff)
  qed
  have call_p0: "Header req' c = layeredValue env (headers clt) hdrs c"
    if "sent (fst (Call_p0 env w clt method path hdrs params)) = sent w @ [req']"
  proof -
    from that have "outboundRequest_p0 env clt method path hdrs params = Inr req'"
      by (simp only: Call_p0_sent_Inr)
    then show ?thesis by (rule outbound_p0_layered)
  qed
  have some: "\<exists>(k', v') \<in> set (entries hdrs). ?canon k' = ?canon k \<and>
        layeredValue env (headers clt) hdrs (?canon k) = Some [toString env v']"
    if "(k, v) \<in> set (entries hdrs)"
  proof (cases "lastValue ?canon (?canon k) (entries hdrs)")
    case None
    with that show ?thesis
      by (auto simp: lastValue_None)
  next
    case (Some v')
    from lastValue_Some [OF this] obtain k' where
      "(k', v') \<in> set (entries hdrs)" "?canon k' = ?canon k" by blast
    with Some show ?thesis
      by (auto simp: layeredValue_def)
  qed
  have custom: "layeredValue env (headers clt) hdrs (?canon k) = Some [toString env v]"
    if "(k, v) \<in> set (entries hdrs)"
      and "\<forall>(k', v') \<in> set (entries hdrs). ?canon k' = ?canon k \<longrightarrow> v' = v"
  proof -
    from some [OF that(1)] that(2) show ?thesis by auto
  qed
  have default: "layeredValue env (headers clt) hdrs (?canon dk) = Some [dv]"
    if a: "(dk, dv) \<in> set (entries (headers clt))"
      and b: "\<forall>(k', v') \<in> set (entries (headers clt)). ?canon k' = ?canon dk \<longrightarrow> v' = dv"
      and n: "\<forall>(k', v') \<in> set (entries hdrs). ?canon k' \<noteq> ?canon dk"
  proof -
    from n have none: "lastValue ?canon (?canon dk) (entries hdrs) = None"
      by (simp add: lastValue_None)
    show ?thesis
    proof (cases "lastValue ?canon (?canon dk) (entries (headers clt))")
      case None
      with a show ?thesis by (auto simp: lastValue_None)
    next
      case (Some v')
      from lastValue_Some [OF this] b have "v' = dv" by auto
      with Some none show ?thesis by (simp add: layeredValue_def)
    qed
  qed
  from call call_p0 some custom default show ?thesis by blast
qed

lemma example_custom_key:
  \<open>outboundRequest std_env exampleClient ''POST'' ''/databases''
     (Some [(''x-appwrite-key'', GString ''k2'')]) (Some []) =
   Inr \<lparr>Method = ''POST'',
        URL = \<lparr>Base = ''https://example.test/v1/databases'', RawQuery = [], Fragment = []\<rparr>,
        Header = [''X-Appwrite-Project'' \<mapsto> [''p1''], ''X-Appwrite-Key'' \<mapsto> [''k2''],
                  ''Content-Type'' \<mapsto> [''application/json'']],
        Body = Some ''{}''\<rparr>\<close>
  by (simp add: build_defs std_defs exampleClient_def)

theorem header_layers_witness:
  \<open>sent (fst (Call std_env world0 exampleClient ''POST'' ''/databases''
                (Some [(''x-appwrite-key'', GString ''k2'')]) (Some []))) =
     sent world0 @
     [\<lparr>Method = ''POST'',
       URL = \<lparr>Base = ''https://example.test/v1/databases'', RawQuery = [], Fragment = []\<rparr>,
       Header = [''X-Appwrite-Project'' \<mapsto> [''p1''], ''X-Appwrite-Key'' \<mapsto> [''k2''],
                 ''Content-Type'' \<mapsto> [''application/json'']],
       Body = Some ''{}''\<rparr>] \<and>
   (''x-appwrite-key'', GString ''k2'') \<in> set (entries (Some [(''x-appwrite-key'', GString ''k2'')])) \<and>
   (''X-Appwrite-Project'', ''p1'') \<in> set (entries (headers exampleClient)) \<and>
   canonicalMIMEHeaderKey std_env ''x-appwrite-key'' = ''X-Appwrite-Key'' \<and>
   canonicalMIMEHeaderKey std_env ''X-Appwrite-Project'' = ''X-Appwrite-Project'' \<and>
   canonicalMIMEHeaderKey std_env ''Content-Type'' = ''Content-Type'' \<and>
   layeredValue std_env (headers exampleClient) (Some [(''x-appwrite-key'', GString ''k2'')])
     ''X-Appwrite-Key'' = Some [''k2''] \<and>
   layeredValue std_env (headers exampleClient) (Some [(''x-appwrite-key'', GString ''k2'')])
     ''X-Appwrite-Project'' = Some [''p1''] \<and>
   Header \<lparr>Method = ''POST'',
       URL = \<lparr>Base = ''https://example.test/v1/databases'', RawQuery = [], Fragment = []\<rparr>,
       Header = [''X-Appwrite-Project'' \<mapsto> [''p1''], ''X-Appwrite-Key'' \<mapsto> [''k2''],
                 ''Content-Type'' \<mapsto> [''application/json'']],
       Body = Some ''{}''\<rparr> ''X-Appwrite-Key'' =
     layeredValue std_env (headers exampleClient) (Some [(''x-appwrite-key'', GString ''k2'')])
       ''X-Appwrite-Key''\<close>
proof -
  have s: \<open>sent (fst (Call std_env world0 exampleClient ''POST'' ''/databases''
                (Some [(''x-appwrite-key'', GString ''k2'')]) (Some []))) =
     sent world0 @
     [\<lparr>Method = ''POST'',
       URL = \<lparr>Base = ''https://example.test/v1/databases'', RawQuery = [], Fragment = []\<rparr>,
       Header = [''X-Appwrite-Project'' \<mapsto> [''p1''], ''X-Appwrite-Key'' \<mapsto> [''k2''],
                 ''Content-Type'' \<mapsto> [''application/json'']],
       Body = Some ''{}''\<rparr>]\<close>
    by (simp only: Call_sent_Inr example_custom_key)
  have c: "canonicalMIMEHeaderKey std_env ''x-appwrite-key'' = ''X-Appwrite-Key'' \<and>
           canonicalMIMEHeaderKey std_env ''Content-Type'' = ''Content-Type'' \<and>
           canonicalMIMEHeaderKey std_env ''X-Appwrite-Project'' = ''X-Appwrite-Project'' \<and>
           canonicalMIMEHeaderKey std_env ''X-Appwrite-Key'' = ''X-Appwrite-Key''"
    by (simp add: std_defs)
  have t: "toString std_env (GString ''k2'') = ''k2''"
    by (simp add: std_env_def)
  have e: "entries (Some [(''x-appwrite-key'', GString ''k2'')]) =
             [(''x-appwrite-key'', GString ''k2'')]"
    "entries (headers exampleClient) =
       [(''X-Appwrite-Project'', ''p1''), (''X-Appwrite-Key'', ''k1'')]"
    by (simp_all add: entries_def exampleClient_def)
  let ?R = "\<lparr>Method = ''POST'',
       URL = \<lparr>Base = ''https://example.test/v1/databases'', RawQuery = [], Fragment = []\<rparr>,
       Header = [''X-Appwrite-Project'' \<mapsto> [''p1''], ''X-Appwrite-Key'' \<mapsto> [''k2''],
                 ''Content-Type'' \<mapsto> [''application/json'']],
       Body = Some ''{}''\<rparr>"
  note th = header_layers [of std_env world0 exampleClient "''POST''" "''/databases''"
      "Some [(''x-appwrite-key'', GString ''k2'')]" "Some []" ?R "''X-Appwrite-Key''" ?R
      "''x-appwrite-key''" "GString ''k2''" "''X-Appwrite-Project''" "''p1''"]
  from th [THEN conjunct1] s c have sent: "Header ?R ''X-Appwrite-Key'' =
     layeredValue std_env (headers exampleClient) (Some [(''x-appwrite-key'', GString ''k2'')])
       ''X-Appwrite-Key''"
    by simp
  from th [THEN conjunct2, THEN conjunct2, THEN conjunct2, THEN conjunct1] c t e have custom:
    "layeredValue std_env (headers exampleClient) (Some [(''x-appwrite-key'', GString ''k2'')])
       ''X-Appwrite-Key'' = Some [''k2'']"
    by simp
  from th [THEN conjunct2, THEN conjunct2, THEN conjunct2, THEN conjunct2] c e have default:
    "layeredValue std_env (headers exampleClient) (Some [(''x-appwrite-key'', GString ''k2'')])
       ''X-Appwrite-Project'' = Some [''p1'']"
    by simp
  from s c e sent custom default show ?thesis
    by (simp only: simp_thms list.set insertI1)
qed

text \<open>
  Where the claim as stated fails: in \<^verbatim>\<open>client.go\<close> a POST with the default
  \<^verbatim>\<open>Content-Type: text/csv\<close> and the custom \<^verbatim>\<open>Content-Type: text/plain\<close> goes out
  with \<^verbatim>\<open>application/json\<close>; and of the two custom headers \<^verbatim>\<open>x-a: 1\<close> and
  \<^verbatim>\<open>X-A: 2\<close>, which collide with no default header, only the one set last is in the
  request.
\<close>

theorem header_layers_counterexample:
  "(''Content-Type'', GString ''text/plain'') \<in>
     set (entries (Some [(''Content-Type'', GString ''text/plain'')])) \<and>
   toString std_env (GString ''text/plain'') = ''text/plain'' \<and>
   canonicalMIMEHeaderKey std_env ''Content-Type'' = ''Content-Type'' \<and>
   length (sent (fst (Call std_env world0
     (exampleClient\<lparr>headers := Some [(''Content-Type'', ''text/csv'')]\<rparr>)
     ''POST'' ''/databases'' (Some [(''Content-Type'', GString ''text/plain'')]) (Some [])))) = 1 \<and>
   Header (last (sent (fst (Call std_env world0
     (exampleClient\<lparr>headers := Some [(''Content-Type'', ''text/csv'')]\<rparr>)
     ''POST'' ''/databases'' (Some [(''Content-Type'', GString ''text/plain'')]) (Some [])))))
     ''Content-Type'' = Some [''application/json''] \<and>
   (''x-a'', GString ''1'') \<in> set (entries (Some [(''x-a'', GString ''1''), (''X-A'', GString ''2'')])) \<and>
   toString std_env (GString ''1'') = ''1'' \<and>
   canonicalMIMEHeaderKey std_env ''x-a'' = ''X-A'' \<and>
   length (sent (fst (Call std_env world0 exampleClient ''GET'' ''/health''
     (Some [(''x-a'', GString ''1''), (''X-A'', GString ''2'')]) None))) = 1 \<and>
   Header (last (sent (fst (Call std_env world0 exampleClient ''GET'' ''/health''
     (Some [(''x-a'', GString ''1''), (''X-A'', GString ''2'')]) None))))
     ''X-A'' = Some [''2'']"
  by (simp add: Call_sent build_defs std_defs exampleClient_def world0_def)

section \<open>The answer of the server\<close>

text \<open>Nothing that builds the request looks at the transport.\<close>

lemma parts_roundTrip:
  "requestBody (env\<lparr>roundTrip := g\<rparr>) method params = requestBody env method params"
  "NewRequest (env\<lparr>roundTrip := g\<rparr>) method urlStr body = NewRequest env method urlStr body"
  "Header_Set (env\<lparr>roundTrip := g\<rparr>) req key val = Header_Set env req key val"
  "setHeaders (env\<lparr>roundTrip := g\<rparr>) req cl cu = setHeaders env req cl cu"
  "updateQueryParameters (env\<lparr>roundTrip := g\<rparr>) req params =
     updateQueryParameters env req params"
  by (simp_all add: requestBody_def NewRequest_def Header_Set_def setHeaders_def
      updateQueryParameters_def queryValues_def Let_def)

lemma outbound_roundTrip:
  "outboundRequest (env\<lparr>roundTrip := g\<rparr>) clt method path hdrs params =
     outboundRequest env clt method path hdrs params"
  "outboundRequest_p0 (env\<lparr>roundTrip := g\<rparr>) clt method path hdrs params =
     outboundRequest_p0 env clt method path hdrs params"
  "logLines (env\<lparr>roundTrip := g\<rparr>) method params = logLines env method params"
  "logLines_p0 (env\<lparr>roundTrip := g\<rparr>) method params = logLines_p0 env method params"
  by (simp_all add: outboundRequest_def outboundRequest_p0_def parts_roundTrip logLines_def
      logLines_p0_def split: sum.split)

lemma answer_status:
  "answer (env\<lparr>roundTrip := g\<rparr>)
     (map_sum id (\<lambda>resp. resp\<lparr>StatusCode := f (StatusCode resp)\<rparr>) r) = answer env r"
  by (cases r) (simp_all add: answer_def parseJSONResponse_def)

lemma Call_status:
  "Call (env\<lparr>roundTrip := \<lambda>history h r.
           map_sum id (\<lambda>resp. resp\<lparr>StatusCode := f (StatusCode resp)\<rparr>)
             (roundTrip env history h r)\<rparr>) w clt method path hdrs params =
   Call env w clt method path hdrs params"
  by (cases "outboundRequest env clt method path hdrs params")
     (simp_all add: Call_eq outbound_roundTrip answer_status)

lemma Call_p0_status:
  "Call_p0 (env\<lparr>roundTrip := \<lambda>history h r.
           map_sum id (\<lambda>resp. resp\<lparr>StatusCode := f (StatusCode resp)\<rparr>)
             (roundTrip env history h r)\<rparr>) w clt method path hdrs params =
   Call_p0 env w clt method path hdrs params"
  by (cases "outboundRequest_p0 env clt method path hdrs params")
     (simp_all add: Call_p0_eq outbound_roundTrip answer_status)

text \<open>The pair that is returned once a request has been answered.\<close>

lemma Call_answered:
  assumes "call = Call \<or> call = Call_p0"
    and "sent (fst (call env w clt method path hdrs params)) = sent w @ [req]"
    and "client (fst (snd (call env w clt method path hdrs params))) = Some h"
    and "roundTrip env (sent w) h req = Inr resp"
  shows "snd (snd (call env w clt method path hdrs params)) =
           Returns (parseJSONResponse env resp)"
proof -
  from assms(1,3) have h: "handleOf w clt = h"
    by (auto simp: Call_receiver Call_p0_receiver)
  from assms(1) show ?thesis
  proof
    assume c: "call = Call"
    with assms(2) have "outboundRequest env clt method path hdrs params = Inr req"
      by (simp only: Call_sent_Inr)
    then show ?thesis
      by (simp add: c Call_result h assms(4) answer_def)
  next
    assume c: "call = Call_p0"
    with assms(2) have "outboundRequest_p0 env clt method path hdrs params = Inr req"
      by (simp only: Call_p0_sent_Inr)
    then show ?thesis
      by (simp add: c Call_p0_result h assms(4) answer_def)
  qed
qed

text \<open>
  C5. \<^verbatim>\<open>Call\<close>, of either file, does the same and returns the same when the status
  code of every response is replaced by another one. When the transport answers the
  request and the decoder accepts the body of the response, \<^verbatim>\<open>Call\<close> returns the
  decoded mapping and a nil error, whatever the status code of the response is.
\<close>

theorem status_code_ignored:
  assumes "call = Call \<or> call = Call_p0"
  shows "call (env\<lparr>roundTrip := \<lambda>history h r.
                  map_sum id (\<lambda>resp. resp\<lparr>StatusCode := f (StatusCode resp)\<rparr>)
                    (roundTrip env history h r)\<rparr>) w clt method path hdrs params =
         call env w clt method path hdrs params \<and>
         (sent (fst (call env w clt method path hdrs params)) = sent w @ [req] \<and>
          client (fst (snd (call env w clt method path hdrs params))) = Some h \<and>
          roundTrip env (sent w) h req = Inr resp \<and>
          decode env (RespBody resp) = (m, None) \<longrightarrow>
          snd (snd (call env w clt method path hdrs params)) = Returns (m, None))"
proof -
  from assms have
    "call (env\<lparr>roundTrip := \<lambda>history h r.
                  map_sum id (\<lambda>resp. resp\<lparr>StatusCode := f (StatusCode resp)\<rparr>)
                    (roundTrip env history h r)\<rparr>) w clt method path hdrs params =
     call env w clt method path hdrs params"
    by (auto simp only: Call_status Call_p0_status)
  moreover have "snd (snd (call env w clt method path hdrs params)) = Returns (m, None)"
    if "sent (fst (call env w clt method path hdrs params)) = sent w @ [req]"
      and "client (fst (snd (call env w clt method path hdrs params))) = Some h"
      and "roundTrip env (sent w) h req = Inr resp"
      and "decode env (RespBody resp) = (m, None)"
    using Call_answered [OF assms that(1,2,3)] that(4)
    by (simp add: parseJSONResponse_def)
  ultimately show ?thesis by blast
qed

text \<open>
  C6, amended. When the transport answers the request and the decoder reports an error
  on the body of the response, \<^verbatim>\<open>Call\<close>, of either file, returns a nil mapping and
  that error, whatever the decoder had put into the mapping before it failed.
\<close>

theorem decode_error_returned:
  assumes "call = Call \<or> call = Call_p0"
    and "sent (fst (call env w clt method path hdrs params)) = sent w @ [req]"
    and "client (fst (snd (call env w clt method path hdrs params))) = Some h"
    and "roundTrip env (sent w) h req = Inr resp"
    and "decode env (RespBody resp) = (m, Some err)"
  shows "snd (snd (call env w clt method path hdrs params)) = Returns (None, Some err)"
  using Call_answered [OF assms(1,2,3,4)] assms(5)
  by (simp add: parseJSONResponse_def)

lemma example_missing:
  "outboundRequest std_env exampleClient ''GET'' ''/missing'' None None =
   Inr \<lparr>Method = ''GET'',
        URL = \<lparr>Base = ''https://example.test/v1/missing'', RawQuery = [], Fragment = []\<rparr>,
        Header = [''X-Appwrite-Project'' \<mapsto> [''p1''], ''X-Appwrite-Key'' \<mapsto> [''k1'']],
        Body = None\<rparr>"
  by (simp add: build_defs std_defs exampleClient_def)

lemma example_broken:
  "outboundRequest std_env exampleClient ''GET'' ''/broken'' None None =
   Inr \<lparr>Method = ''GET'',
        URL = \<lparr>Base = ''https://example.test/v1/broken'', RawQuery = [], Fragment = []\<rparr>,
        Header = [''X-Appwrite-Project'' \<mapsto> [''p1''], ''X-Appwrite-Key'' \<mapsto> [''k1'']],
        Body = None\<rparr>"
  by (simp add: build_defs std_defs exampleClient_def)

lemma example_handle:
  "client (fst (snd (Call std_env world0 exampleClient method path hdrs params))) = Some 0"
  by (simp add: Call_receiver handleOf_def exampleClient_def world0_def)

theorem status_code_ignored_witness:
  \<open>sent (fst (Call std_env world0 exampleClient ''GET'' ''/missing'' None None)) =
     sent world0 @
     [\<lparr>Method = ''GET'',
       URL = \<lparr>Base = ''https://example.test/v1/missing'', RawQuery = [], Fragment = []\<rparr>,
       Header = [''X-Appwrite-Project'' \<mapsto> [''p1''], ''X-Appwrite-Key'' \<mapsto> [''k1'']],
       Body = None\<rparr>] \<and>
   client (fst (snd (Call std_env world0 exampleClient ''GET'' ''/missing'' None None))) =
     Some 0 \<and>
   roundTrip std_env (sent world0) 0
     \<lparr>Method = ''GET'',
       URL = \<lparr>Base = ''https://example.test/v1/missing'', RawQuery = [], Fragment = []\<rparr>,
       Header = [''X-Appwrite-Project'' \<mapsto> [''p1''], ''X-Appwrite-Key'' \<mapsto> [''k1'']],
       Body = None\<rparr> =
     Inr \<lparr>StatusCode = 404, RespBody = ''{"message":"not found"}''\<rparr> \<and>
   decode std_env (RespBody \<lparr>StatusCode = 404, RespBody = ''{"message":"not found"}''\<rparr>) =
     (Some [(''message'', JString ''not found'')], None) \<and>
   snd (snd (Call std_env world0 exampleClient ''GET'' ''/missing'' None None)) =
     Returns (Some [(''message'', JString ''not found'')], None)\<close>
proof -
  have s: \<open>sent (fst (Call std_env world0 exampleClient ''GET'' ''/missing'' None None)) =
     sent world0 @
     [\<lparr>Method = ''GET'',
       URL = \<lparr>Base = ''https://example.test/v1/missing'', RawQuery = [], Fragment = []\<rparr>,
       Header = [''X-Appwrite-Project'' \<mapsto> [''p1''], ''X-Appwrite-Key'' \<mapsto> [''k1'']],
       Body = None\<rparr>]\<close>
    by (simp only: Call_sent_Inr example_missing)
  have r: \<open>roundTrip std_env (sent world0) 0
     \<lparr>Method = ''GET'',
       URL = \<lparr>Base = ''https://example.test/v1/missing'', RawQuery = [], Fragment = []\<rparr>,
       Header = [''X-Appwrite-Project'' \<mapsto> [''p1''], ''X-Appwrite-Key'' \<mapsto> [''k1'']],
       Body = None\<rparr> =
     Inr \<lparr>StatusCode = 404, RespBody = ''{"message":"not found"}''\<rparr>\<close>
    by (simp add: std_env_def std_roundTrip_def)
  have d: \<open>decode std_env (RespBody \<lparr>StatusCode = 404, RespBody = ''{"message":"not found"}''\<rparr>) =
     (Some [(''message'', JString ''not found'')], None)\<close>
    by (simp add: std_env_def decode_examples)
  from status_code_ignored [OF disjI1 [OF refl], THEN conjunct2, rule_format,
      OF conjI [OF s conjI [OF example_handle conjI [OF r d]]]] s r d
  show ?thesis
    by (simp only: example_handle simp_thms)
qed

theorem decode_error_returned_witness:
  \<open>sent (fst (Call std_env world0 exampleClient ''GET'' ''/broken'' None None)) =
     sent world0 @
     [\<lparr>Method = ''GET'',
       URL = \<lparr>Base = ''https://example.test/v1/broken'', RawQuery = [], Fragment = []\<rparr>,
       Header = [''X-Appwrite-Project'' \<mapsto> [''p1''], ''X-Appwrite-Key'' \<mapsto> [''k1'']],
       Body = None\<rparr>] \<and>
   client (fst (snd (Call std_env world0 exampleClient ''GET'' ''/broken'' None None))) =
     Some 0 \<and>
   roundTrip std_env (sent world0) 0
     \<lparr>Method = ''GET'',
       URL = \<lparr>Base = ''https://example.test/v1/broken'', RawQuery = [], Fragment = []\<rparr>,
       Header = [''X-Appwrite-Project'' \<mapsto> [''p1''], ''X-Appwrite-Key'' \<mapsto> [''k1'']],
       Body = None\<rparr> =
     Inr \<lparr>StatusCode = 502, RespBody = ''<html>Bad Gateway</html>''\<rparr> \<and>
   decode std_env (RespBody \<lparr>StatusCode = 502, RespBody = ''<html>Bad Gateway</html>''\<rparr>) =
     (None, Some (DecodeError SyntaxError)) \<and>
   snd (snd (Call std_env world0 exampleClient ''GET'' ''/broken'' None None)) =
     Returns (None, Some (DecodeError SyntaxError))\<close>
proof -
  have s: \<open>sent (fst (Call std_env world0 exampleClient ''GET'' ''/broken'' None None)) =
     sent world0 @
     [\<lparr>Method = ''GET'',
       URL = \<lparr>Base = ''https://example.test/v1/broken'', RawQuery = [], Fragment = []\<rparr>,
       Header = [''X-Appwrite-Project'' \<mapsto> [''p1''], ''X-Appwrite-Key'' \<mapsto> [''k1'']],
       Body = None\<rparr>]\<close>
    by (simp only: Call_sent_Inr example_broken)
  have r: \<open>roundTrip std_env (sent world0) 0
     \<lparr>Method = ''GET'',
       URL = \<lparr>Base = ''https://example.test/v1/broken'', RawQuery = [], Fragment = []\<rparr>,
       Header = [''X-Appwrite-Project'' \<mapsto> [''p1''], ''X-Appwrite-Key'' \<mapsto> [''k1'']],
       Body = None\<rparr> =
     Inr \<lparr>StatusCode = 502, RespBody = ''<html>Bad Gateway</html>''\<rparr>\<close>
    by (simp add: std_env_def std_roundTrip_def)
  have d: \<open>decode std_env (RespBody \<lparr>StatusCode = 502, RespBody = ''<html>Bad Gateway</html>''\<rparr>) =
     (None, Some (DecodeError SyntaxError))\<close>
    by (simp add: std_env_def decode_examples)
  from decode_error_returned [OF disjI1 [OF refl] s example_handle r d] s r d
  show ?thesis
    by (simp only: example_handle simp_thms)
qed

text \<open>
  Where the claim as stated fails: the decoder reads the first JSON value of the body and
  no further, and it takes \<^verbatim>\<open>null\<close> for a nil map. A body that is a JSON object
  followed by an HTML tag is not a JSON object, and \<^verbatim>\<open>Call\<close> returns the mapping of
  the object with a nil error; the body \<^verbatim>\<open>null\<close> is not a JSON object either, and
  \<^verbatim>\<open>Call\<close> returns a nil mapping with a nil error.
\<close>

lemma example_trailing:
  "outboundRequest std_env exampleClient ''GET'' ''/trailing'' None None =
   Inr \<lparr>Method = ''GET'',
        URL = \<lparr>Base = ''https://example.test/v1/trailing'', RawQuery = [], Fragment = []\<rparr>,
        Header = [''X-Appwrite-Project'' \<mapsto> [''p1''], ''X-Appwrite-Key'' \<mapsto> [''k1'']],
        Body = None\<rparr>"
  by (simp add: build_defs std_defs exampleClient_def)

lemma example_null:
  "outboundRequest std_env exampleClient ''GET'' ''/null'' None None =
   Inr \<lparr>Method = ''GET'',
        URL = \<lparr>Base = ''https://example.test/v1/null'', RawQuery = [], Fragment = []\<rparr>,
        Header = [''X-Appwrite-Project'' \<mapsto> [''p1''], ''X-Appwrite-Key'' \<mapsto> [''k1'']],
        Body = None\<rparr>"
  by (simp add: build_defs std_defs exampleClient_def)

theorem decode_error_returned_counterexample:
  \<open>\<not> isJSONObjectText ''{"ok":true}<html>'' \<and>
   sent (fst (Call std_env world0 exampleClient ''GET'' ''/trailing'' None None)) =
     sent world0 @
     [\<lparr>Method = ''GET'',
       URL = \<lparr>Base = ''https://example.test/v1/trailing'', RawQuery = [], Fragment = []\<rparr>,
       Header = [''X-Appwrite-Project'' \<mapsto> [''p1''], ''X-Appwrite-Key'' \<mapsto> [''k1'']],
       Body = None\<rparr>] \<and>
   roundTrip std_env (sent world0) 0
     \<lparr>Method = ''GET'',
       URL = \<lparr>Base = ''https://example.test/v1/trailing'', RawQuery = [], Fragment = []\<rparr>,
       Header = [''X-Appwrite-Project'' \<mapsto> [''p1''], ''X-Appwrite-Key'' \<mapsto> [''k1'']],
       Body = None\<rparr> =
     Inr \<lparr>StatusCode = 200, RespBody = ''{"ok":true}<html>''\<rparr> \<and>
   snd (snd (Call std_env world0 exampleClient ''GET'' ''/trailing'' None None)) =
     Returns (Some [(''ok'', JBool True)], None) \<and>
   \<not> isJSONObjectText ''null'' \<and>
   sent (fst (Call std_env world0 exampleClient ''GET'' ''/null'' None None)) =
     sent world0 @
     [\<lparr>Method = ''GET'',
       URL = \<lparr>Base = ''https://example.test/v1/null'', RawQuery = [], Fragment = []\<rparr>,
       Header = [''X-Appwrite-Project'' \<mapsto> [''p1''], ''X-Appwrite-Key'' \<mapsto> [''k1'']],
       Body = None\<rparr>] \<and>
   roundTrip std_env (sent world0) 0
     \<lparr>Method = ''GET'',
       URL = \<lparr>Base = ''https://example.test/v1/null'', RawQuery = [], Fragment = []\<rparr>,
       Header = [''X-Appwrite-Project'' \<mapsto> [''p1''], ''X-Appwrite-Key'' \<mapsto> [''k1'']],
       Body = None\<rparr> =
     Inr \<lparr>StatusCode = 200, RespBody = ''null''\<rparr> \<and>
   snd (snd (Call std_env world0 exampleClient ''GET'' ''/null'' None None)) =
     Returns (None, None)\<close>
proof -
  have t: \<open>roundTrip std_env (sent world0) 0
     \<lparr>Method = ''GET'',
       URL = \<lparr>Base = ''https://example.test/v1/trailing'', RawQuery = [], Fragment = []\<rparr>,
       Header = [''X-Appwrite-Project'' \<mapsto> [''p1''], ''X-Appwrite-Key'' \<mapsto> [''k1'']],
       Body = None\<rparr> =
     Inr \<lparr>StatusCode = 200, RespBody = ''{"ok":true}<html>''\<rparr>\<close>
    by (simp add: std_env_def std_roundTrip_def)
  have n: \<open>roundTrip std_env (sent world0) 0
     \<lparr>Method = ''GET'',
       URL = \<lparr>Base = ''https://example.test/v1/null'', RawQuery = [], Fragment = []\<rparr>,
       Header = [''X-Appwrite-Project'' \<mapsto> [''p1''], ''X-Appwrite-Key'' \<mapsto> [''k1'']],
       Body = None\<rparr> =
     Inr \<lparr>StatusCode = 200, RespBody = ''null''\<rparr>\<close>
    by (simp add: std_env_def std_roundTrip_def)
  have h: "handleOf world0 exampleClient = 0" "sent world0 = []"
    by (simp_all add: handleOf_def exampleClient_def world0_def)
  have d: \<open>decode std_env ''{"ok":true}<html>'' = (Some [(''ok'', JBool True)], None)\<close>
    \<open>decode std_env ''null'' = (None, None)\<close>
    by (simp_all add: std_env_def decode_examples)
  have "snd (snd (Call std_env world0 exampleClient ''GET'' ''/trailing'' None None)) =
     Returns (Some [(''ok'', JBool True)], None)"
    using t d by (simp add: Call_result example_trailing h answer_def parseJSONResponse_def)
  moreover
  have "snd (snd (Call std_env world0 exampleClient ''GET'' ''/null'' None None)) =
     Returns (None, None)"
    using n d by (simp add: Call_result example_null h answer_def parseJSONResponse_def)
  moreover
  have "sent (fst (Call std_env world0 exampleClient ''GET'' ''/trailing'' None None)) =
     sent world0 @
     [\<lparr>Method = ''GET'',
       URL = \<lparr>Base = ''https://example.test/v1/trailing'', RawQuery = [], Fragment = []\<rparr>,
       Header = [''X-Appwrite-Project'' \<mapsto> [''p1''], ''X-Appwrite-Key'' \<mapsto> [''k1'']],
       Body = None\<rparr>]"
    by (simp only: Call_sent_Inr example_trailing)
  moreover
  have "sent (fst (Call std_env world0 exampleClient ''GET'' ''/null'' None None)) =
     sent world0 @
     [\<lparr>Method = ''GET'',
       URL = \<lparr>Base = ''https://example.test/v1/null'', RawQuery = [], Fragment = []\<rparr>,
       Header = [''X-Appwrite-Project'' \<mapsto> [''p1''], ''X-Appwrite-Key'' \<mapsto> [''k1'']],
       Body = None\<rparr>]"
    by (simp only: Call_sent_Inr example_null)
  ultimately show ?thesis
    using t n object_text_examples by (simp only: simp_thms)
qed

section \<open>The two files side by side\<close>

lemma outbound_same_GET:
  "ToUpper method = ''GET'' \<Longrightarrow>
   outboundRequest_p0 env clt method path hdrs params =
     outboundRequest env clt method path hdrs params"
  by (simp add: outboundRequest_def outboundRequest_p0_def split: sum.split)

lemma outbound_forced:
  "ToUpper method \<noteq> ''GET'' \<Longrightarrow>
   outboundRequest env clt method path hdrs params =
     map_sum id (\<lambda>r. Header_Set env r ''Content-Type'' ''application/json'')
       (outboundRequest_p0 env clt method path hdrs params)"
  by (cases "NewRequest env method (endpoint clt @ path) (requestBody env method params)")
     (simp_all add: outboundRequest_def outboundRequest_p0_def)

lemma answer_roundTrip: "answer (env\<lparr>roundTrip := g\<rparr>) r = answer env r"
  by (cases r) (simp_all add: answer_def parseJSONResponse_def)

lemma logLines_prefixed:
  "logLines_p0 env method params = map (\<lambda>l. ''JSON Data: '' @ l) (logLines env method params)"
  by (cases "marshal env params") (simp_all add: logLines_def logLines_p0_def)

text \<open>
  C8. For a method that is a spelling of GET, \<^verbatim>\<open>Call\<close> of the two files is the same
  function of the surroundings, the receiver and the arguments: the same request goes
  out, the same lines are logged (none), and the same state and the same pair come
  back. For any other method the two leave the same receiver and allocate the same; the
  request of \<^verbatim>\<open>client.go\<close> is the request of the second file with
  \<^verbatim>\<open>Content-Type\<close> set to \<^verbatim>\<open>application/json\<close>; the line the second file logs
  is the line of \<^verbatim>\<open>client.go\<close> after the text \<^verbatim>\<open>JSON Data: \<close>; and the pair
  \<^verbatim>\<open>client.go\<close> returns is the pair the second file returns when the transport is
  shown its request with that header added.
\<close>

theorem files_agree:
  "(method \<in> {''get'', ''geT'', ''gEt'', ''gET'', ''Get'', ''GeT'', ''GEt'', ''GET''} \<longrightarrow>
      Call_p0 env w clt method path hdrs params = Call env w clt method path hdrs params) \<and>
   (method \<notin> {''get'', ''geT'', ''gEt'', ''gET'', ''Get'', ''GeT'', ''GEt'', ''GET''} \<longrightarrow>
      fst (snd (Call_p0 env w clt method path hdrs params)) =
        fst (snd (Call env w clt method path hdrs params)) \<and>
      allocated (fst (Call_p0 env w clt method path hdrs params)) =
        allocated (fst (Call env w clt method path hdrs params)) \<and>
      sent (fst (Call env w clt method path hdrs params)) =
        sent w @ map (\<lambda>r. Header_Set env r ''Content-Type'' ''application/json'')
                   (drop (length (sent w)) (sent (fst (Call_p0 env w clt method path hdrs params)))) \<and>
      logged (fst (Call_p0 env w clt method path hdrs params)) =
        logged w @ map (\<lambda>l. ''JSON Data: '' @ l)
                     (drop (length (logged w)) (logged (fst (Call env w clt method path hdrs params)))) \<and>
      snd (snd (Call env w clt method path hdrs params)) =
        snd (snd (Call_p0
          (env\<lparr>roundTrip := \<lambda>history h r.
                  roundTrip env history h (Header_Set env r ''Content-Type'' ''application/json'')\<rparr>)
          w clt method path hdrs params)))"
proof (cases "ToUpper method = ''GET''")
  case True
  then have "logLines env method params = []" "logLines_p0 env method params = []"
    by (simp_all add: logLines_def logLines_p0_def)
  with True have "Call_p0 env w clt method path hdrs params = Call env w clt method path hdrs params"
    by (simp add: Call_eq Call_p0_eq outbound_same_GET split: sum.split)
  with True show ?thesis
    by (simp only: ToUpper_GET_iff) simp
next
  case False
  have "sent (fst (Call env w clt method path hdrs params)) =
        sent w @ map (\<lambda>r. Header_Set env r ''Content-Type'' ''application/json'')
                   (drop (length (sent w)) (sent (fst (Call_p0 env w clt method path hdrs params))))"
    by (cases "outboundRequest_p0 env clt method path hdrs params")
       (simp_all add: Call_sent Call_p0_sent outbound_forced [OF False])
  moreover have "logged (fst (Call_p0 env w clt method path hdrs params)) =
        logged w @ map (\<lambda>l. ''JSON Data: '' @ l)
                     (drop (length (logged w)) (logged (fst (Call env w clt method path hdrs params))))"
    by (simp add: Call_logged Call_p0_logged logLines_prefixed)
  moreover have "fst (snd (Call_p0 env w clt method path hdrs params)) =
        fst (snd (Call env w clt method path hdrs params))"
    by (simp add: Call_receiver Call_p0_receiver)
  moreover have "allocated (fst (Call_p0 env w clt method path hdrs params)) =
        allocated (fst (Call env w clt method path hdrs params))"
    by (simp add: Call_allocated Call_p0_allocated)
  moreover have "snd (snd (Call env w clt method path hdrs params)) =
        snd (snd (Call_p0
          (env\<lparr>roundTrip := \<lambda>history h r.
                  roundTrip env history h (Header_Set env r ''Content-Type'' ''application/json'')\<rparr>)
          w clt method path hdrs params))"
    by (cases "outboundRequest_p0 env clt method path hdrs params")
       (simp_all add: Call_result Call_p0_result outbound_forced [OF False] outbound_roundTrip
         answer_roundTrip)
  moreover from False have
    "method \<notin> {''get'', ''geT'', ''gEt'', ''gET'', ''Get'', ''GeT'', ''GEt'', ''GET''}"
    by (simp only: ToUpper_GET_iff) simp
  ultimately show ?thesis by simp
qed

theorem files_agree_witness:
  "''get'' \<in> {''get'', ''geT'', ''gEt'', ''gET'', ''Get'', ''GeT'', ''GEt'', ''GET''} \<and>
   Call_p0 std_env world0 exampleClient ''get'' ''/health?x=1'' None
     (Some [(''limit'', GString ''25'')]) =
   Call std_env world0 exampleClient ''get'' ''/health?x=1'' None
     (Some [(''limit'', GString ''25'')]) \<and>
   snd (snd (Call std_env world0 exampleClient ''get'' ''/health?x=1'' None
     (Some [(''limit'', GString ''25'')]))) = Returns (Some [(''ok'', JBool True)], None) \<and>
   ''POST'' \<notin> {''get'', ''geT'', ''gEt'', ''gET'', ''Get'', ''GeT'', ''GEt'', ''GET''} \<and>
   snd (snd (Call std_env world0 exampleClient ''POST'' ''/databases'' None
     (Some [(''name'', GString ''db1'')]))) =
   snd (snd (Call_p0
     (std_env\<lparr>roundTrip := \<lambda>history h r.
        roundTrip std_env history h (Header_Set std_env r ''Content-Type'' ''application/json'')\<rparr>)
     world0 exampleClient ''POST'' ''/databases'' None (Some [(''name'', GString ''db1'')])))"
proof -
  have "snd (snd (Call std_env world0 exampleClient ''get'' ''/health?x=1'' None
     (Some [(''limit'', GString ''25'')]))) = Returns (Some [(''ok'', JBool True)], None)"
    by (simp only: Call_result example_get sum.case)
       (simp add: answer_def parseJSONResponse_def std_env_def std_roundTrip_def
         decode_examples)
  moreover have p:
    "''POST'' \<notin> {''get'', ''geT'', ''gEt'', ''gET'', ''Get'', ''GeT'', ''GEt'', ''GET''}"
    by simp
  moreover note
    files_agree [of "''get''" std_env world0 exampleClient "''/health?x=1''" None
      "Some [(''limit'', GString ''25'')]"]
    files_agree [of "''POST''" std_env world0 exampleClient "''/databases''" None
      "Some [(''name'', GString ''db1'')]", THEN conjunct2, rule_format, OF p]
  ultimately show ?thesis by simp
qed

section \<open>Parameters without a JSON encoding\<close>

lemma parts_marshal:
  "NewRequest (env\<lparr>marshal := g\<rparr>) method urlStr body = NewRequest env method urlStr body"
  "Header_Set (env\<lparr>marshal := g\<rparr>) req key val = Header_Set env req key val"
  "setHeaders (env\<lparr>marshal := g\<rparr>) req cl cu = setHeaders env req cl cu"
  "updateQueryParameters (env\<lparr>marshal := g\<rparr>) req params =
     updateQueryParameters env req params"
  "answer (env\<lparr>marshal := g\<rparr>) r = answer env r"
  by (simp_all add: NewRequest_def Header_Set_def setHeaders_def answer_def
      parseJSONResponse_def updateQueryParameters_def queryValues_def Let_def
      split: sum.split)

lemma failed_marshal:
  assumes "marshal env params = Inl e"
  shows "requestBody env method params = None"
    and "requestBody (env\<lparr>marshal := \<lambda>p. Inl e'\<rparr>) method params = None"
    and "logLines env method params = []"
    and "logLines_p0 env method params = []"
    and "logLines (env\<lparr>marshal := \<lambda>p. Inl e'\<rparr>) method params = []"
    and "logLines_p0 (env\<lparr>marshal := \<lambda>p. Inl e'\<rparr>) method params = []"
  using assms by (simp_all add: requestBody_def logLines_def logLines_p0_def)

lemma failed_marshal_outbound:
  assumes "marshal env params = Inl e"
  shows "outboundRequest (env\<lparr>marshal := \<lambda>p. Inl e'\<rparr>) clt method path hdrs params =
           outboundRequest env clt method path hdrs params"
    and "outboundRequest_p0 (env\<lparr>marshal := \<lambda>p. Inl e'\<rparr>) clt method path hdrs params =
           outboundRequest_p0 env clt method path hdrs params"
  by (simp_all add: outboundRequest_def outboundRequest_p0_def parts_marshal
      failed_marshal [OF assms] split: sum.split)

text \<open>
  C1. What the code does when \<^verbatim>\<open>json.Marshal\<close> fails on the parameters of a call
  that is not a GET, in either file: nothing is logged; \<^verbatim>\<open>Call\<close> does the same and
  returns the same whichever error \<^verbatim>\<open>json.Marshal\<close> reported; the request goes out
  with a nil body; and when the server answers it with a body the decoder accepts,
  \<^verbatim>\<open>Call\<close> returns the decoded mapping and a nil error.
\<close>

theorem marshal_error_swallowed:
  assumes "call = Call \<or> call = Call_p0"
    and "method \<notin> {''get'', ''geT'', ''gEt'', ''gET'', ''Get'', ''GeT'', ''GEt'', ''GET''}"
    and "marshal env params = Inl e"
  shows "logged (fst (call env w clt method path hdrs params)) = logged w \<and>
         call (env\<lparr>marshal := \<lambda>p. Inl e'\<rparr>) w clt method path hdrs params =
           call env w clt method path hdrs params \<and>
         (sent (fst (call env w clt method path hdrs params)) = sent w @ [req] \<longrightarrow>
            Body req = None) \<and>
         (sent (fst (call env w clt method path hdrs params)) = sent w @ [req] \<and>
          client (fst (snd (call env w clt method path hdrs params))) = Some h \<and>
          roundTrip env (sent w) h req = Inr resp \<and>
          decode env (RespBody resp) = (m, None) \<longrightarrow>
          snd (snd (call env w clt method path hdrs params)) = Returns (m, None))"
proof -
  from assms(2) have other: "ToUpper method \<noteq> ''GET''"
    by (simp only: ToUpper_GET_iff) simp
  note f = failed_marshal [OF assms(3)] failed_marshal_outbound [OF assms(3)]
  from assms(1) have "logged (fst (call env w clt method path hdrs params)) = logged w"
    by (auto simp: Call_logged Call_p0_logged f)
  moreover from assms(1) have
    "call (env\<lparr>marshal := \<lambda>p. Inl e'\<rparr>) w clt method path hdrs params =
     call env w clt method path hdrs params"
    by (auto simp: Call_eq Call_p0_eq f parts_marshal split: sum.split)
  moreover have "Body req = None"
    if "sent (fst (call env w clt method path hdrs params)) = sent w @ [req]"
    using assms(1) that outbound_other [OF other, of env clt path hdrs params req]
      outbound_p0_other [OF other, of env clt path hdrs params req]
    by (auto simp: Call_sent_Inr Call_p0_sent_Inr f)
  moreover have "snd (snd (call env w clt method path hdrs params)) = Returns (m, None)"
    if "sent (fst (call env w clt method path hdrs params)) = sent w @ [req]"
      and "client (fst (snd (call env w clt method path hdrs params))) = Some h"
      and "roundTrip env (sent w) h req = Inr resp"
      and "decode env (RespBody resp) = (m, None)"
    using Call_answered [OF assms(1) that(1,2,3)] that(4)
    by (simp add: parseJSONResponse_def)
  ultimately show ?thesis by blast
qed

lemma example_chan_p0:
  "outboundRequest_p0 std_env exampleClient ''POST'' ''/databases'' None
     (Some [(''c'', GChan)]) =
   Inr \<lparr>Method = ''POST'',
        URL = \<lparr>Base = ''https://example.test/v1/databases'', RawQuery = [], Fragment = []\<rparr>,
        Header = [''X-Appwrite-Project'' \<mapsto> [''p1''], ''X-Appwrite-Key'' \<mapsto> [''k1'']],
        Body = None\<rparr>"
  by (simp add: build_defs std_defs exampleClient_def)

lemma example_handle_p0:
  "client (fst (snd (Call_p0 std_env world0 exampleClient method path hdrs params))) = Some 0"
  by (simp add: Call_p0_receiver handleOf_def exampleClient_def world0_def)

theorem marshal_error_swallowed_witness:
  \<open>''POST'' \<notin> {''get'', ''geT'', ''gEt'', ''gET'', ''Get'', ''GeT'', ''GEt'', ''GET''} \<and>
   marshal std_env (Some [(''c'', GChan)]) =
     Inl (MarshalError ''json: unsupported type: chan int'') \<and>
   sent (fst (Call std_env world0 exampleClient ''POST'' ''/databases'' None
                (Some [(''c'', GChan)]))) =
     sent world0 @
     [\<lparr>Method = ''POST'',
       URL = \<lparr>Base = ''https://example.test/v1/databases'', RawQuery = [], Fragment = []\<rparr>,
       Header = [''X-Appwrite-Project'' \<mapsto> [''p1''], ''X-Appwrite-Key'' \<mapsto> [''k1''],
                 ''Content-Type'' \<mapsto> [''application/json'']],
       Body = None\<rparr>] \<and>
   logged (fst (Call std_env world0 exampleClient ''POST'' ''/databases'' None
                  (Some [(''c'', GChan)]))) = logged world0 \<and>
   snd (snd (Call std_env world0 exampleClient ''POST'' ''/databases'' None
               (Some [(''c'', GChan)]))) =
     Returns (Some [(''ok'', JBool True)], None) \<and>
   sent (fst (Call_p0 std_env world0 exampleClient ''POST'' ''/databases'' None
                (Some [(''c'', GChan)]))) =
     sent world0 @
     [\<lparr>Method = ''POST'',
       URL = \<lparr>Base = ''https://example.test/v1/databases'', RawQuery = [], Fragment = []\<rparr>,
       Header = [''X-Appwrite-Project'' \<mapsto> [''p1''], ''X-Appwrite-Key'' \<mapsto> [''k1'']],
       Body = None\<rparr>] \<and>
   snd (snd (Call_p0 std_env world0 exampleClient ''POST'' ''/databases'' None
               (Some [(''c'', GChan)]))) =
     Returns (Some [(''ok'', JBool True)], None)\<close>
proof -
  have p: "''POST'' \<notin> {''get'', ''geT'', ''gEt'', ''gET'', ''Get'', ''GeT'', ''GEt'', ''GET''}"
    by simp
  have m: "marshal std_env (Some [(''c'', GChan)]) =
      Inl (MarshalError ''json: unsupported type: chan int'')"
    by (simp add: std_env_def std_marshal_def)
  have s: "sent (fst (Call std_env world0 exampleClient ''POST'' ''/databases'' None
                (Some [(''c'', GChan)]))) =
     sent world0 @
     [\<lparr>Method = ''POST'',
       URL = \<lparr>Base = ''https://example.test/v1/databases'', RawQuery = [], Fragment = []\<rparr>,
       Header = [''X-Appwrite-Project'' \<mapsto> [''p1''], ''X-Appwrite-Key'' \<mapsto> [''k1''],
                 ''Content-Type'' \<mapsto> [''application/json'']],
       Body = None\<rparr>]"
    by (simp only: Call_sent_Inr example_chan)
  have s0: "sent (fst (Call_p0 std_env world0 exampleClient ''POST'' ''/databases'' None
                (Some [(''c'', GChan)]))) =
     sent world0 @
     [\<lparr>Method = ''POST'',
       URL = \<lparr>Base = ''https://example.test/v1/databases'', RawQuery = [], Fragment = []\<rparr>,
       Header = [''X-Appwrite-Project'' \<mapsto> [''p1''], ''X-Appwrite-Key'' \<mapsto> [''k1'']],
       Body = None\<rparr>]"
    by (simp only: Call_p0_sent_Inr example_chan_p0)
  have r: \<open>roundTrip std_env (sent world0) 0
     \<lparr>Method = ''POST'',
       URL = \<lparr>Base = ''https://example.test/v1/databases'', RawQuery = [], Fragment = []\<rparr>,
       Header = h, Body = None\<rparr> =
     Inr \<lparr>StatusCode = 200, RespBody = ''{"ok":true}''\<rparr>\<close> for h
    by (simp add: std_env_def std_roundTrip_def)
  have d: \<open>decode std_env (RespBody \<lparr>StatusCode = 200, RespBody = ''{"ok":true}''\<rparr>) =
     (Some [(''ok'', JBool True)], None)\<close>
    by (simp add: std_env_def decode_examples)
  note th = marshal_error_swallowed [OF _ p m]
  from th [OF disjI1 [OF refl], of world0 exampleClient "''/databases''" None]
  have "logged (fst (Call std_env world0 exampleClient ''POST'' ''/databases'' None
                  (Some [(''c'', GChan)]))) = logged world0"
    by (rule conjunct1)
  moreover
  from th [OF disjI1 [OF refl], THEN conjunct2, THEN conjunct2, THEN conjunct2, rule_format,
      OF conjI [OF s conjI [OF example_handle conjI [OF r d]]]]
  have "snd (snd (Call std_env world0 exampleClient ''POST'' ''/databases'' None
               (Some [(''c'', GChan)]))) = Returns (Some [(''ok'', JBool True)], None)" .
  moreover
  from th [OF disjI2 [OF refl], THEN conjunct2, THEN conjunct2, THEN conjunct2, rule_format,
      OF conjI [OF s0 conjI [OF example_handle_p0 conjI [OF r d]]]]
  have "snd (snd (Call_p0 std_env world0 exampleClient ''POST'' ''/databases'' None
               (Some [(''c'', GChan)]))) = Returns (Some [(''ok'', JBool True)], None)" .
  ultimately show ?thesis
    using p m s s0 by (simp only: simp_thms)
qed

end
